theory Spec2Isabelle
  imports Complex_Main
begin

section \<open>Conventions of the embedding\<close>

text \<open>
  The vault agent is Python. Its \<open>float\<close> values are modelled as \<^typ>\<open>real\<close>, that is with
  exact arithmetic: every statement below about amounts, ratios and percentages is a statement
  about the exact values of the expressions the code evaluates. Python \<open>int\<close> values are
  \<^typ>\<open>int\<close> or \<^typ>\<open>nat\<close> (counts and lengths). A \<open>dict\<close> whose iteration order the code
  relies on is an association list in insertion order. An exception is a value: a function
  that may raise returns \<open>py_exception + 'a\<close>, with \<open>Inl\<close> for the raise.
  Values the code reads from its environment (the clock, the contract calls, the outcomes of
  the strategy transactions) are parameters of the functions that read them.
\<close>

text \<open>An exception is its class name and its message; \<open>str(e)\<close> is the message.\<close>

datatype py_exception = PyException string string

fun str_exc :: "py_exception \<Rightarrow> string" where
  "str_exc (PyException cls msg) = msg"

section \<open>Data model (fomo\_integration.py)\<close>

record PolicyInfo =
  policy_id :: int
  seller :: string
  buyer :: "string option"
  token :: string
  token_symbol :: string
  amount :: real
  payout_token :: string
  payout_amount :: real
  duration :: int
  upside_share_bps :: int
  entry_price :: real
  start_timestamp :: "int option"
  expiry_timestamp :: "int option"
  state :: string

definition is_active :: "PolicyInfo \<Rightarrow> bool" where
  "is_active p = (state p = ''Active'')"

text \<open>
  \<open>time_to_expiry\<close> reads the clock; \<open>now\<close> is \<open>int(datetime.now().timestamp())\<close>.
  The test \<open>if self.expiry_timestamp\<close> is Python truthiness: \<open>None\<close> and \<open>0\<close> both fail it.
\<close>

definition time_to_expiry :: "int \<Rightarrow> PolicyInfo \<Rightarrow> int option" where
  "time_to_expiry now p =
     (case expiry_timestamp p of
        None \<Rightarrow> None
      | Some t \<Rightarrow> if t \<noteq> 0 then Some (max 0 (t - now)) else None)"

definition required_reserve :: "PolicyInfo \<Rightarrow> real" where
  "required_reserve p = (if is_active p then payout_amount p else 0)"

record ProtocolSnapshot =
  total_policies :: nat
  active_policies :: "PolicyInfo list"
  open_policies :: "PolicyInfo list"
  total_reserves_required :: real
  available_liquidity :: real
  pending_settlements :: "PolicyInfo list"
  timestamp :: int

section \<open>The integrated allocation (IntegratedMantleVaultAgent)\<close>

text \<open>
  The two settings the calculation reads from the agent: \<open>self.reserve_ratio\<close> (set to 0.15
  by the constructor) and \<open>self.config.MIN_REALLOCATION_THRESHOLD\<close> (default 0.5).
\<close>

record agent =
  reserve_ratio :: real
  MIN_REALLOCATION_THRESHOLD :: real

definition default_agent :: agent where
  "default_agent = \<lparr> reserve_ratio = 0.15, MIN_REALLOCATION_THRESHOLD = 0.5 \<rparr>"

text \<open>
  The entries of \<open>reasons\<close> are formatted strings; the model keeps the message and the value
  formatted into it: \<open>"Insufficient reserves for policy coverage"\<close>,
  \<open>"APY spread of {apy_spread:.2f}% detected"\<close>, \<open>"{n} policies expiring soon"\<close>.
\<close>

datatype reason =
    InsufficientReserves
  | ApySpread real
  | PoliciesExpiring nat

text \<open>The dictionary the calculation returns.\<close>

record allocation =
  should_rebalance :: bool
  reasons :: "reason list"
  total_funds :: real
  required_reserves :: real
  safety_buffer :: real
  deployable_funds :: real
  current_reserve_ratio :: real
  strategy_apys :: "(string \<times> real) list"
  optimal_allocation :: "(string \<times> real) list"
  upcoming_expirations :: nat

definition strategy_names :: "string list" where
  "strategy_names = [''init_looping'', ''circuit_vault'', ''mnt_staking'']"

text \<open>Python's \<open>max\<close> and \<open>min\<close> of a sequence raise \<open>ValueError\<close> on an empty one.\<close>

fun py_max :: "real list \<Rightarrow> py_exception + real" where
  "py_max [] = Inl (PyException ''ValueError'' ''max() arg is an empty sequence'')"
| "py_max (x # xs) = Inr (fold max xs x)"

fun py_min :: "real list \<Rightarrow> py_exception + real" where
  "py_min [] = Inl (PyException ''ValueError'' ''min() arg is an empty sequence'')"
| "py_min (x # xs) = Inr (fold min xs x)"

text \<open>
  The filter of the list comprehension \<open>p.time_to_expiry and p.time_to_expiry < 3600\<close>:
  the first conjunct is truthiness, which \<open>None\<close> and \<open>0\<close> fail. Both reads of the property
  see the same clock value \<open>now\<close>.
\<close>

definition expiring_soon :: "int \<Rightarrow> PolicyInfo \<Rightarrow> bool" where
  "expiring_soon now p =
     (case time_to_expiry now p of
        None \<Rightarrow> False
      | Some t \<Rightarrow> t \<noteq> 0 \<and> t < 3600)"

definition risk_multiplier :: "nat \<Rightarrow> real" where
  "risk_multiplier n = (if n > 10 then 0.8 else if n < 3 then 1.2 else 1.0)"

definition base_allocation :: "nat \<Rightarrow> (string \<times> real) list" where
  "base_allocation n =
     [(''init_looping'', 0.45 * risk_multiplier n),
      (''circuit_vault'', 0.35),
      (''mnt_staking'', 0.20)]"

definition normalize_allocation :: "(string \<times> real) list \<Rightarrow> (string \<times> real) list" where
  "normalize_allocation base =
     (let total_allocation = sum_list (map snd base)
      in map (\<lambda>(k, v). (k, (v / total_allocation) * 100)) base)"

definition plan_allocation :: "real \<Rightarrow> nat \<Rightarrow> (string \<times> real) list" where
  "plan_allocation deployable n =
     (if deployable > 0 then normalize_allocation (base_allocation n)
      else [(''init_looping'', 0), (''circuit_vault'', 0), (''mnt_staking'', 0)])"

text \<open>
  \<open>_calculate_integrated_allocation\<close>. \<open>get_strategy_apy\<close> stands for the three awaited calls
  \<open>self.strategy_manager.get_strategy_apy(name)\<close>, which never raise (section on the strategy
  manager below).
\<close>

definition calculate_integrated_allocation ::
  "agent \<Rightarrow> (string \<Rightarrow> real) \<Rightarrow> int \<Rightarrow> ProtocolSnapshot \<Rightarrow> py_exception + allocation" where
  "calculate_integrated_allocation self get_strategy_apy now snapshot =
     (let tf = available_liquidity snapshot;
          rr = total_reserves_required snapshot;
          sb = rr * 0.2;
          total_reserves_needed = rr + sb;
          df = max 0 (tf - total_reserves_needed);
          crr = (if tf > 0 then total_reserves_needed / tf else 0);
          apys = map (\<lambda>name. (name, get_strategy_apy name)) strategy_names;
          sr1 = (if crr < reserve_ratio self then True else False);
          rs1 = (if crr < reserve_ratio self then [InsufficientReserves] else [])
      in case py_max (map snd apys) of
           Inl e \<Rightarrow> Inl e
         | Inr hi \<Rightarrow>
       (case py_min (map snd apys) of
           Inl e \<Rightarrow> Inl e
         | Inr lo \<Rightarrow>
       (let apy_spread = hi - lo;
            sr2 = (if apy_spread > MIN_REALLOCATION_THRESHOLD self then True else sr1);
            rs2 = (if apy_spread > MIN_REALLOCATION_THRESHOLD self
                   then rs1 @ [ApySpread apy_spread] else rs1);
            upcoming = filter (expiring_soon now) (active_policies snapshot);
            sr3 = (if upcoming \<noteq> [] then True else sr2);
            rs3 = (if upcoming \<noteq> []
                   then rs2 @ [PoliciesExpiring (length upcoming)] else rs2);
            oa = plan_allocation df (length (active_policies snapshot))
        in Inr \<lparr> should_rebalance = sr3,
                 reasons = rs3,
                 total_funds = tf,
                 required_reserves = rr,
                 safety_buffer = sb,
                 deployable_funds = df,
                 current_reserve_ratio = crr,
                 strategy_apys = apys,
                 optimal_allocation = oa,
                 upcoming_expirations = length upcoming \<rparr>)))"

section \<open>Strategies and the strategy manager (APY\_agent.py)\<close>

text \<open>
  The result dictionaries of \<open>deposit\<close> and \<open>withdraw\<close> are association lists from key to
  value. \<open>result['success']\<close> is read for its truth value.
\<close>

datatype pyval = PBool bool | PStr string | PFloat real

type_synonym result_dict = "(string \<times> pyval) list"

definition success :: "result_dict \<Rightarrow> bool" where
  "success r = (map_of r ''success'' = Some (PBool True))"

datatype strategy = INITLoopingStrategy | CircuitProtocolStrategy | MNTStakingStrategy

text \<open>
  What the strategies meet outside the program: the outcome of each awaited \<open>_fetch_*\<close>
  coroutine (a value, or the exception it raises), keyed by the coroutine's name, and the
  exception, if any, raised inside the \<open>try\<close> body of a \<open>deposit\<close> or a \<open>withdraw\<close>.
\<close>

record env =
  fetch :: "string \<Rightarrow> py_exception + real"
  deposit_raises :: "strategy \<Rightarrow> real \<Rightarrow> py_exception option"
  withdraw_raises :: "strategy \<Rightarrow> real \<Rightarrow> py_exception option"

definition leverage_ratio :: real where
  "leverage_ratio = 3.0"

text \<open>\<open>get_current_apy\<close> of the three classes: the first fetch that raises ends the
  \<open>try\<close> body, and the handler returns the fallback constant.\<close>

fun get_current_apy :: "env \<Rightarrow> strategy \<Rightarrow> real" where
  "get_current_apy e INITLoopingStrategy =
     (case fetch e ''_fetch_init_supply_apy'' of
        Inl ex \<Rightarrow> 8.5
      | Inr base_supply_apy \<Rightarrow>
     (case fetch e ''_fetch_init_borrow_apy'' of
        Inl ex \<Rightarrow> 8.5
      | Inr borrow_apy \<Rightarrow>
     (case fetch e ''_fetch_mnt_rewards_apy'' of
        Inl ex \<Rightarrow> 8.5
      | Inr mnt_rewards_apy \<Rightarrow>
          max 0 ((base_supply_apy * leverage_ratio) - (borrow_apy * (leverage_ratio - 1))
                 + mnt_rewards_apy))))"
| "get_current_apy e CircuitProtocolStrategy =
     (case fetch e ''_fetch_circuit_apy'' of
        Inl ex \<Rightarrow> 6.8
      | Inr base_apy \<Rightarrow> base_apy * 1.15)"
| "get_current_apy e MNTStakingStrategy =
     (case fetch e ''_fetch_mnt_staking_apy'' of
        Inl ex \<Rightarrow> 4.5
      | Inr base_staking_apy \<Rightarrow>
     (case fetch e ''_fetch_network_fees_apy'' of
        Inl ex \<Rightarrow> 4.5
      | Inr network_fees_apy \<Rightarrow> base_staking_apy + network_fees_apy))"

definition failure_dict :: "string \<Rightarrow> result_dict" where
  "failure_dict msg = [(''success'', PBool False), (''error'', PStr msg)]"

definition tx_hash :: "char \<Rightarrow> string" where
  "tx_hash c = ''0x'' @ replicate 64 c"

fun deposit :: "env \<Rightarrow> strategy \<Rightarrow> real \<Rightarrow> result_dict" where
  "deposit e INITLoopingStrategy amt =
     (case deposit_raises e INITLoopingStrategy amt of
        Some ex \<Rightarrow> failure_dict (str_exc ex)
      | None \<Rightarrow> [(''success'', PBool True), (''strategy'', PStr ''init_looping''),
                 (''amount'', PFloat amt), (''leverage'', PFloat leverage_ratio),
                 (''tx_hash'', PStr (tx_hash CHR ''1''))])"
| "deposit e CircuitProtocolStrategy amt =
     (case deposit_raises e CircuitProtocolStrategy amt of
        Some ex \<Rightarrow> failure_dict (str_exc ex)
      | None \<Rightarrow> [(''success'', PBool True), (''strategy'', PStr ''circuit_vault''),
                 (''amount'', PFloat amt), (''vault_type'', PStr ''auto_compounding''),
                 (''tx_hash'', PStr (tx_hash CHR ''3''))])"
| "deposit e MNTStakingStrategy amt =
     (case deposit_raises e MNTStakingStrategy amt of
        Some ex \<Rightarrow> failure_dict (str_exc ex)
      | None \<Rightarrow> [(''success'', PBool True), (''strategy'', PStr ''mnt_staking''),
                 (''amount'', PFloat amt), (''staking_period'', PStr ''flexible''),
                 (''tx_hash'', PStr (tx_hash CHR ''5''))])"

fun withdraw :: "env \<Rightarrow> strategy \<Rightarrow> real \<Rightarrow> result_dict" where
  "withdraw e INITLoopingStrategy amt =
     (case withdraw_raises e INITLoopingStrategy amt of
        Some ex \<Rightarrow> failure_dict (str_exc ex)
      | None \<Rightarrow> [(''success'', PBool True), (''strategy'', PStr ''init_looping''),
                 (''amount'', PFloat amt), (''tx_hash'', PStr (tx_hash CHR ''2''))])"
| "withdraw e CircuitProtocolStrategy amt =
     (case withdraw_raises e CircuitProtocolStrategy amt of
        Some ex \<Rightarrow> failure_dict (str_exc ex)
      | None \<Rightarrow> [(''success'', PBool True), (''strategy'', PStr ''circuit_vault''),
                 (''amount'', PFloat amt), (''tx_hash'', PStr (tx_hash CHR ''4''))])"
| "withdraw e MNTStakingStrategy amt =
     (case withdraw_raises e MNTStakingStrategy amt of
        Some ex \<Rightarrow> failure_dict (str_exc ex)
      | None \<Rightarrow> [(''success'', PBool True), (''strategy'', PStr ''mnt_staking''),
                 (''amount'', PFloat amt), (''tx_hash'', PStr (tx_hash CHR ''6''))])"

text \<open>\<open>StrategyManager.strategies\<close>, the dictionary built by the constructor.\<close>

definition strategies :: "string \<Rightarrow> strategy option" where
  "strategies =
     map_of [(''init_looping'', INITLoopingStrategy),
             (''circuit_vault'', CircuitProtocolStrategy),
             (''mnt_staking'', MNTStakingStrategy)]"

definition get_strategy_apy :: "env \<Rightarrow> string \<Rightarrow> real" where
  "get_strategy_apy e strategy_name =
     (case strategies strategy_name of
        Some s \<Rightarrow> get_current_apy e s
      | None \<Rightarrow> 0.0)"

text \<open>
  \<open>deploy_to_strategy\<close> and \<open>withdraw_from_strategy\<close> return the result dictionary; the
  model returns with it the calls the operation made on strategy objects.
\<close>

datatype adapter_call = DepositCall strategy real | WithdrawCall strategy real

definition deploy_to_strategy :: "env \<Rightarrow> string \<Rightarrow> real \<Rightarrow> result_dict \<times> adapter_call list" where
  "deploy_to_strategy e strategy_name amt =
     (case strategies strategy_name of
        Some s \<Rightarrow> (deposit e s amt, [DepositCall s amt])
      | None \<Rightarrow> (failure_dict (''Unknown strategy: '' @ strategy_name), []))"

definition withdraw_from_strategy :: "env \<Rightarrow> string \<Rightarrow> real \<Rightarrow> result_dict \<times> adapter_call list" where
  "withdraw_from_strategy e strategy_name amt =
     (case strategies strategy_name of
        Some s \<Rightarrow> (withdraw e s amt, [WithdrawCall s amt])
      | None \<Rightarrow> (failure_dict (''Unknown strategy: '' @ strategy_name), []))"

section \<open>Reserve top-up (fomo\_integration.py, \_ensure\_adequate\_reserves)\<close>

text \<open>
  The \<open>for\<close> loop over \<open>strategies_by_apy\<close>. It returns the final value of
  \<open>remaining_shortfall\<close> and the withdrawals it requested, in order: strategy name, amount,
  and whether \<open>result['success']\<close> held.
\<close>

fun withdraw_loop ::
  "env \<Rightarrow> real \<Rightarrow> (string \<times> real) list \<Rightarrow> real \<Rightarrow> real \<times> (string \<times> real \<times> bool) list" where
  "withdraw_loop e shortfall [] remaining_shortfall = (remaining_shortfall, [])"
| "withdraw_loop e shortfall ((strategy_name, apy) # rest) remaining_shortfall =
     (if remaining_shortfall \<le> 0 then (remaining_shortfall, [])
      else
        (let withdraw_amount = min remaining_shortfall (shortfall * 0.5);
             result = fst (withdraw_from_strategy e strategy_name withdraw_amount);
             remaining = (if success result then remaining_shortfall - withdraw_amount
                          else remaining_shortfall);
             tail = withdraw_loop e shortfall rest remaining
         in (fst tail, (strategy_name, withdraw_amount, success result) # snd tail)))"

text \<open>
  \<open>get_balance\<close> is the outcome of \<open>self.web3_manager.get_balance("USDC", ...)\<close>, a contract
  call that may raise; the method has no handler of its own. \<open>sorted\<close> with a key is
  stable, as \<^const>\<open>sort_key\<close> is. The value returned is the list of withdrawals requested.
\<close>

definition strategies_by_apy :: "env \<Rightarrow> (string \<times> real) list" where
  "strategies_by_apy e =
     sort_key snd (map (\<lambda>name. (name, get_strategy_apy e name)) strategy_names)"

definition ensure_adequate_reserves ::
  "env \<Rightarrow> py_exception + real \<Rightarrow> real \<Rightarrow> py_exception + (string \<times> real \<times> bool) list" where
  "ensure_adequate_reserves e get_balance required_amount =
     (case get_balance of
        Inl ex \<Rightarrow> Inl ex
      | Inr current_balance \<Rightarrow>
          if current_balance < required_amount then
            (let shortfall = required_amount - current_balance;
                 remaining_shortfall = shortfall
             in Inr (snd (withdraw_loop e shortfall (strategies_by_apy e) remaining_shortfall)))
          else Inr [])"

text \<open>The amounts of the withdrawals that succeeded.\<close>

definition withdrawn :: "(string \<times> real \<times> bool) list \<Rightarrow> real" where
  "withdrawn calls = sum_list (map (\<lambda>(name, amt, ok). if ok then amt else 0) calls)"

section \<open>The rebalance tool (APY\_agent.py, execute\_rebalance)\<close>

text \<open>
  The tool returns a string: an error text, or \<open>"Rebalance Executed: "\<close> followed by the
  summary as JSON. The model keeps the error text, and of the summary the balance, the
  allocations and the execution results (strategy, target amount, percentage, result).
\<close>

datatype rebalance_reply =
    ErrorText string
  | RebalanceExecuted real "(string \<times> real) list" "(string \<times> real \<times> real \<times> result_dict) list"

fun deposit_loop ::
  "env \<Rightarrow> real \<Rightarrow> (string \<times> real) list \<Rightarrow>
     (string \<times> real \<times> real \<times> result_dict) list \<times> adapter_call list" where
  "deposit_loop e current_balance [] = ([], [])"
| "deposit_loop e current_balance ((strategy, allocation_pct) # rest) =
     (let target_amount = (current_balance * allocation_pct) / 100;
          tail = deposit_loop e current_balance rest
      in if target_amount > 0 then
           (let r = deploy_to_strategy e strategy target_amount
            in ((strategy, target_amount, allocation_pct, fst r) # fst tail, snd r @ snd tail))
         else tail)"

text \<open>
  \<open>target_allocations\<close> is a dictionary, given here as its items in order (the keys of a
  dictionary are distinct). The second component of the result is the sequence of calls made
  on strategy objects.
\<close>

definition execute_rebalance ::
  "env \<Rightarrow> py_exception + real \<Rightarrow> (string \<times> real) list \<Rightarrow> rebalance_reply \<times> adapter_call list" where
  "execute_rebalance e get_balance target_allocations =
     (case get_balance of
        Inl ex \<Rightarrow> (ErrorText (''Error executing rebalance: '' @ str_exc ex), [])
      | Inr current_balance \<Rightarrow>
          (let total_allocation = sum_list (map snd target_allocations)
           in if \<bar>total_allocation - 100\<bar> > 0.1
              then (ErrorText ''Error: Target allocations must sum to 100%'', [])
              else (let outcome = deposit_loop e current_balance target_allocations
                    in (RebalanceExecuted current_balance target_allocations (fst outcome),
                        snd outcome))))"

section \<open>The protocol snapshot (fomo\_integration.py, FOMOInsuranceMonitor)\<close>

text \<open>The tuple returned by the \<open>getPolicy\<close> contract call, by position.\<close>

record policy_data =
  pd_seller :: string
  pd_buyer :: string
  pd_token :: string
  pd_token_symbol :: string
  pd_amount :: nat
  pd_payout_token :: string
  pd_payout_amount :: nat
  pd_duration :: nat
  pd_upside_share_bps :: nat
  pd_entry_price :: nat
  pd_start_timestamp :: nat
  pd_expiry_timestamp :: nat
  pd_state :: nat

text \<open>The contract calls the monitor makes; each returns or raises.\<close>

record chain =
  getOpenPolicyIds :: "py_exception + int list"
  getPolicy :: "int \<Rightarrow> py_exception + policy_data"
  balanceOf :: "py_exception + nat"

definition py_index :: "'a list \<Rightarrow> nat \<Rightarrow> py_exception + 'a" where
  "py_index xs i =
     (if i < length xs then Inr (xs ! i)
      else Inl (PyException ''IndexError'' ''list index out of range''))"

definition get_open_policy_ids :: "chain \<Rightarrow> int list" where
  "get_open_policy_ids c = (case getOpenPolicyIds c of Inl ex \<Rightarrow> [] | Inr result \<Rightarrow> result)"

definition get_policy_info :: "chain \<Rightarrow> int \<Rightarrow> PolicyInfo option" where
  "get_policy_info c pid =
     (case getPolicy c pid of
        Inl ex \<Rightarrow> None
      | Inr d \<Rightarrow>
     (case py_index [''Open'', ''Active'', ''Settled'', ''Cancelled''] (pd_state d) of
        Inl ex \<Rightarrow> None
      | Inr st \<Rightarrow>
          Some \<lparr> policy_id = pid,
                 seller = pd_seller d,
                 buyer = (if pd_buyer d \<noteq> ''0x0000000000000000000000000000000000000000''
                          then Some (pd_buyer d) else None),
                 token = pd_token d,
                 token_symbol = pd_token_symbol d,
                 amount = real (pd_amount d) / 10 ^ 18,
                 payout_token = pd_payout_token d,
                 payout_amount = real (pd_payout_amount d) / 10 ^ 6,
                 duration = int (pd_duration d),
                 upside_share_bps = int (pd_upside_share_bps d),
                 entry_price = real (pd_entry_price d) / 10 ^ 8,
                 start_timestamp = (if pd_start_timestamp d > 0
                                    then Some (int (pd_start_timestamp d)) else None),
                 expiry_timestamp = (if pd_expiry_timestamp d > 0
                                     then Some (int (pd_expiry_timestamp d)) else None),
                 state = st \<rparr>))"

definition get_available_liquidity :: "chain \<Rightarrow> real" where
  "get_available_liquidity c =
     (case balanceOf c of Inl ex \<Rightarrow> 0.0 | Inr balance_wei \<Rightarrow> real balance_wei / 10 ^ 6)"

text \<open>
  The \<open>try\<close> body of \<open>get_protocol_snapshot\<close>, over the outcomes of the three awaited
  helpers, and then the method with its handler. \<open>now\<close> is \<open>datetime.now()\<close>.
\<close>

fun collect_policies ::
  "(int \<Rightarrow> py_exception + PolicyInfo option) \<Rightarrow> int list \<Rightarrow> py_exception + PolicyInfo list" where
  "collect_policies info [] = Inr []"
| "collect_policies info (pid # rest) =
     (case info pid of
        Inl ex \<Rightarrow> Inl ex
      | Inr policy \<Rightarrow>
     (case collect_policies info rest of
        Inl ex \<Rightarrow> Inl ex
      | Inr ps \<Rightarrow> Inr (case policy of Some p \<Rightarrow> p # ps | None \<Rightarrow> ps)))"

definition snapshot_try ::
  "py_exception + int list \<Rightarrow> (int \<Rightarrow> py_exception + PolicyInfo option) \<Rightarrow>
     py_exception + real \<Rightarrow> int \<Rightarrow> py_exception + ProtocolSnapshot" where
  "snapshot_try ids info liquidity now =
     (case ids of
        Inl ex \<Rightarrow> Inl ex
      | Inr open_policy_ids \<Rightarrow>
     (case collect_policies info open_policy_ids of
        Inl ex \<Rightarrow> Inl ex
      | Inr opens \<Rightarrow>
     (let actives = [];
          reserves = sum_list (map required_reserve actives)
      in case liquidity of
           Inl ex \<Rightarrow> Inl ex
         | Inr liq \<Rightarrow>
             Inr \<lparr> total_policies = length opens + length actives,
                    active_policies = actives,
                    open_policies = opens,
                    total_reserves_required = reserves,
                    available_liquidity = liq,
                    pending_settlements = [],
                    timestamp = now \<rparr>)))"

definition fallback_snapshot :: "int \<Rightarrow> ProtocolSnapshot" where
  "fallback_snapshot now =
     \<lparr> total_policies = 0, active_policies = [], open_policies = [],
       total_reserves_required = 0.0, available_liquidity = 0.0,
       pending_settlements = [], timestamp = now \<rparr>"

definition get_protocol_snapshot_with ::
  "py_exception + int list \<Rightarrow> (int \<Rightarrow> py_exception + PolicyInfo option) \<Rightarrow>
     py_exception + real \<Rightarrow> int \<Rightarrow> ProtocolSnapshot" where
  "get_protocol_snapshot_with ids info liquidity now =
     (case snapshot_try ids info liquidity now of
        Inl ex \<Rightarrow> fallback_snapshot now
      | Inr snapshot \<Rightarrow> snapshot)"

definition get_protocol_snapshot :: "chain \<Rightarrow> int \<Rightarrow> ProtocolSnapshot" where
  "get_protocol_snapshot c now =
     get_protocol_snapshot_with
       (Inr (get_open_policy_ids c))
       (\<lambda>pid. Inr (get_policy_info c pid))
       (Inr (get_available_liquidity c))
       now"

section \<open>Derived quantities and concrete inputs\<close>

text \<open>Names for three expressions of the allocation calculation, used in the statements.\<close>

definition reserves_needed :: "ProtocolSnapshot \<Rightarrow> real" where
  "reserves_needed snap = total_reserves_required snap + total_reserves_required snap * 0.2"

definition ratio_of :: "ProtocolSnapshot \<Rightarrow> real" where
  "ratio_of snap = (if available_liquidity snap > 0
                    then reserves_needed snap / available_liquidity snap else 0)"

definition spread_of :: "(string \<Rightarrow> real) \<Rightarrow> real" where
  "spread_of g = max (g ''mnt_staking'') (max (g ''circuit_vault'') (g ''init_looping''))
               - min (g ''mnt_staking'') (min (g ''circuit_vault'') (g ''init_looping''))"

text \<open>Scenario 1: liquidity 100000 against 20000 of required reserves, no policies listed.\<close>

definition scenario1_snapshot :: ProtocolSnapshot where
  "scenario1_snapshot =
     \<lparr> total_policies = 0, active_policies = [], open_policies = [],
       total_reserves_required = 20000, available_liquidity = 100000,
       pending_settlements = [], timestamp = 0 \<rparr>"

text \<open>An active policy that expires at second 87400, and a snapshot taken at that second.\<close>

definition expired_policy :: PolicyInfo where
  "expired_policy =
     \<lparr> policy_id = 1, seller = ''0xA'', buyer = Some ''0xB'', token = ''0xC'',
       token_symbol = ''WETH'', amount = 1, payout_token = ''0xD'', payout_amount = 20000,
       duration = 86400, upside_share_bps = 500, entry_price = 2400,
       start_timestamp = Some 1000, expiry_timestamp = Some 87400, state = ''Active'' \<rparr>"

definition expired_snapshot :: ProtocolSnapshot where
  "expired_snapshot =
     \<lparr> total_policies = 1, active_policies = [expired_policy], open_policies = [],
       total_reserves_required = 20000, available_liquidity = 100000,
       pending_settlements = [], timestamp = 87400 \<rparr>"

text \<open>Twelve active policies of 1000 each.\<close>

definition busy_snapshot :: ProtocolSnapshot where
  "busy_snapshot =
     \<lparr> total_policies = 12,
       active_policies = replicate 12 (expired_policy\<lparr> payout_amount := 1000 \<rparr>),
       open_policies = [],
       total_reserves_required = 12000, available_liquidity = 100000,
       pending_settlements = [], timestamp = 0 \<rparr>"

text \<open>A snapshot with negative liquidity.\<close>

definition overdrawn_snapshot :: ProtocolSnapshot where
  "overdrawn_snapshot =
     \<lparr> total_policies = 0, active_policies = [], open_policies = [],
       total_reserves_required = 20000, available_liquidity = - 1,
       pending_settlements = [], timestamp = 0 \<rparr>"

text \<open>
  An environment in which every APY fetch raises, so that the three strategies report their
  fallback constants 8.5, 6.8 and 4.5, and every deposit and withdrawal goes through; and one
  in which, besides, the withdrawal from the staking strategy raises.
\<close>

definition offline_env :: env where
  "offline_env =
     \<lparr> fetch = (\<lambda>name. Inl (PyException ''ConnectionError'' ''feed unreachable'')),
       deposit_raises = (\<lambda>s amt. None),
       withdraw_raises = (\<lambda>s amt. None) \<rparr>"

definition staking_locked_env :: env where
  "staking_locked_env =
     \<lparr> fetch = (\<lambda>name. Inl (PyException ''ConnectionError'' ''feed unreachable'')),
       deposit_raises = (\<lambda>s amt. None),
       withdraw_raises = (\<lambda>s amt. if s = MNTStakingStrategy
                           then Some (PyException ''RuntimeError'' ''funds locked'') else None) \<rparr>"

text \<open>A chain on which every contract call raises.\<close>

definition dead_chain :: chain where
  "dead_chain =
     \<lparr> getOpenPolicyIds = Inl (PyException ''ConnectionError'' ''rpc down''),
       getPolicy = (\<lambda>pid. Inl (PyException ''ConnectionError'' ''rpc down'')),
       balanceOf = Inl (PyException ''ConnectionError'' ''rpc down'') \<rparr>"

text \<open>Target allocations that sum to 100.05, and target allocations that sum to 90.\<close>

definition near_full_allocations :: "(string \<times> real) list" where
  "near_full_allocations = [(''init_looping'', 60), (''circuit_vault'', 40.05)]"

definition short_allocations :: "(string \<times> real) list" where
  "short_allocations = [(''init_looping'', 50), (''circuit_vault'', 40)]"

text \<open>The calls on strategy objects that the deposit loop makes, entry by entry.\<close>

definition deposits_of :: "env \<Rightarrow> real \<Rightarrow> (string \<times> real) list \<Rightarrow> adapter_call list" where
  "deposits_of e current_balance target_allocations =
     concat (map (\<lambda>(strategy, allocation_pct).
                    if (current_balance * allocation_pct) / 100 > 0
                    then snd (deploy_to_strategy e strategy ((current_balance * allocation_pct) / 100))
                    else [])
                 target_allocations)"

text \<open>
  A chain with two open policies on which the read of policy 1 raises, the read of policy 2
  returns an open policy, and the balance is 250000000 units (250 USDC).
\<close>

definition sample_policy_data :: policy_data where
  "sample_policy_data =
     \<lparr> pd_seller = ''0xA'', pd_buyer = ''0x0000000000000000000000000000000000000000'',
       pd_token = ''0xC'', pd_token_symbol = ''WETH'', pd_amount = 10 ^ 18,
       pd_payout_token = ''0xD'', pd_payout_amount = 5000000, pd_duration = 86400,
       pd_upside_share_bps = 500, pd_entry_price = 240000000000,
       pd_start_timestamp = 0, pd_expiry_timestamp = 0, pd_state = 0 \<rparr>"

definition flaky_chain :: chain where
  "flaky_chain =
     \<lparr> getOpenPolicyIds = Inr [1, 2],
       getPolicy = (\<lambda>pid. if pid = 2 then Inr sample_policy_data
                          else Inl (PyException ''ContractLogicError'' ''execution reverted'')),
       balanceOf = Inr 250000000 \<rparr>"

section \<open>The allocation calculation in closed form\<close>

lemma calculate_integrated_allocation_closed:
  "calculate_integrated_allocation self g now snap =
     Inr \<lparr> should_rebalance =
             (ratio_of snap < reserve_ratio self
              \<or> spread_of g > MIN_REALLOCATION_THRESHOLD self
              \<or> filter (expiring_soon now) (active_policies snap) \<noteq> []),
           reasons =
             (if ratio_of snap < reserve_ratio self then [InsufficientReserves] else [])
             @ (if spread_of g > MIN_REALLOCATION_THRESHOLD self
                then [ApySpread (spread_of g)] else [])
             @ (if filter (expiring_soon now) (active_policies snap) \<noteq> []
                then [PoliciesExpiring (length (filter (expiring_soon now) (active_policies snap)))]
                else []),
           total_funds = available_liquidity snap,
           required_reserves = total_reserves_required snap,
           safety_buffer = total_reserves_required snap * 0.2,
           deployable_funds = max 0 (available_liquidity snap - reserves_needed snap),
           current_reserve_ratio = ratio_of snap,
           strategy_apys = map (\<lambda>name. (name, g name)) strategy_names,
           optimal_allocation =
             plan_allocation (max 0 (available_liquidity snap - reserves_needed snap))
               (length (active_policies snap)),
           upcoming_expirations = length (filter (expiring_soon now) (active_policies snap)) \<rparr>"
proof -
  have vals: "map snd (map (\<lambda>name. (name, g name)) strategy_names)
      = [g ''init_looping'', g ''circuit_vault'', g ''mnt_staking'']"
    by (simp add: strategy_names_def)
  have hi: "py_max [g ''init_looping'', g ''circuit_vault'', g ''mnt_staking'']
      = Inr (max (g ''mnt_staking'') (max (g ''circuit_vault'') (g ''init_looping'')))"
    by simp
  have lo: "py_min [g ''init_looping'', g ''circuit_vault'', g ''mnt_staking'']
      = Inr (min (g ''mnt_staking'') (min (g ''circuit_vault'') (g ''init_looping'')))"
    by simp
  show ?thesis
    unfolding calculate_integrated_allocation_def Let_def vals hi lo sum.case
      reserves_needed_def[symmetric] ratio_of_def[symmetric] spread_of_def[symmetric]
    by (cases "ratio_of snap < reserve_ratio self";
        cases "spread_of g > MIN_REALLOCATION_THRESHOLD self";
        cases "filter (expiring_soon now) (active_policies snap) = []") simp_all
qed

lemma plan_allocation_sum:
  "d > 0 \<Longrightarrow> sum_list (map snd (plan_allocation d n)) = 100"
  by (simp add: plan_allocation_def normalize_allocation_def base_allocation_def Let_def
        risk_multiplier_def)

lemma offline_apys:
  "get_strategy_apy offline_env ''init_looping'' = 8.5"
  "get_strategy_apy offline_env ''circuit_vault'' = 6.8"
  "get_strategy_apy offline_env ''mnt_staking'' = 4.5"
  by (simp_all add: get_strategy_apy_def strategies_def offline_env_def)

lemma offline_spread: "spread_of (get_strategy_apy offline_env) = 4"
  by (simp add: spread_of_def offline_apys)

text \<open>
  Claim C1. For every snapshot the allocation calculation returns a plan whose
  \<open>required_reserves\<close> is the snapshot's \<open>total_reserves_required\<close>, whose \<open>safety_buffer\<close>
  is 0.2 times that, whose \<open>deployable_funds\<close> is the liquidity less the two, or 0 if that is
  negative, and whose \<open>current_reserve_ratio\<close> is their sum over the liquidity when the
  liquidity is positive and 0 otherwise. With liquidity 100000 and required reserves 20000
  the figures are 20000, 4000, 76000 and 0.24.
\<close>

theorem reserve_figures:
  "\<exists>p. calculate_integrated_allocation self g now snap = Inr p
     \<and> required_reserves p = total_reserves_required snap
     \<and> safety_buffer p = required_reserves p * 0.2
     \<and> deployable_funds p =
          max 0 (available_liquidity snap - (required_reserves p + safety_buffer p))
     \<and> current_reserve_ratio p =
          (if available_liquidity snap > 0
           then (required_reserves p + safety_buffer p) / available_liquidity snap else 0)
     \<and> (available_liquidity snap = 100000 \<and> total_reserves_required snap = 20000 \<longrightarrow>
          required_reserves p = 20000 \<and> safety_buffer p = 4000 \<and> deployable_funds p = 76000
          \<and> current_reserve_ratio p = 0.24)"
  by (simp add: calculate_integrated_allocation_closed reserves_needed_def ratio_of_def)

text \<open>The scenario of C1 on a concrete snapshot.\<close>

theorem reserve_figures_witness:
  "\<exists>p. calculate_integrated_allocation default_agent (get_strategy_apy offline_env) 0
          scenario1_snapshot = Inr p
     \<and> required_reserves p = 20000 \<and> safety_buffer p = 4000 \<and> deployable_funds p = 76000
     \<and> current_reserve_ratio p = 0.24"
  using reserve_figures [of default_agent "get_strategy_apy offline_env" 0 scenario1_snapshot]
  by (auto simp add: scenario1_snapshot_def)

section \<open>The rebalance decision\<close>

text \<open>
  What the code decides: \<open>should_rebalance\<close> holds exactly when one of its three tests does,
  and \<open>reasons\<close> has one entry for each test that holds. The third test is the code's own,
  \<^const>\<open>expiring_soon\<close>.
\<close>

lemma rebalance_triggers:
  "\<exists>p. calculate_integrated_allocation self g now snap = Inr p
     \<and> (should_rebalance p \<longleftrightarrow>
           current_reserve_ratio p < reserve_ratio self
         \<or> spread_of g > MIN_REALLOCATION_THRESHOLD self
         \<or> (\<exists>q \<in> set (active_policies snap). expiring_soon now q))
     \<and> length (reasons p) =
          (if current_reserve_ratio p < reserve_ratio self then 1 else 0)
        + (if spread_of g > MIN_REALLOCATION_THRESHOLD self then 1 else 0)
        + (if (\<exists>q \<in> set (active_policies snap). expiring_soon now q) then 1 else 0)"
  by (simp add: calculate_integrated_allocation_closed filter_empty_conv)

text \<open>
  Claim C2. The claim counts a policy whose \<open>time_to_expiry\<close> is 0 as expiring soon, since
  0 is below the window of 3600 seconds. The code's filter is
  \<open>p.time_to_expiry and p.time_to_expiry < 3600\<close>, whose first conjunct is false for 0. On a
  snapshot taken at the second an active policy expires, with a reserve ratio of 0.24 and no
  APY spread, the calculation returns \<open>should_rebalance = False\<close>, no reason and
  \<open>upcoming_expirations = 0\<close>.
\<close>

theorem zero_time_to_expiry_not_counted:
  "time_to_expiry 87400 expired_policy = Some 0
   \<and> is_active expired_policy
   \<and> calculate_integrated_allocation default_agent (\<lambda>name. 5) 87400 expired_snapshot
      = Inr \<lparr> should_rebalance = False, reasons = [], total_funds = 100000,
              required_reserves = 20000, safety_buffer = 4000, deployable_funds = 76000,
              current_reserve_ratio = 0.24,
              strategy_apys = [(''init_looping'', 5), (''circuit_vault'', 5), (''mnt_staking'', 5)],
              optimal_allocation = [(''init_looping'', 54 / 109 * 100),
                 (''circuit_vault'', 35 / 109 * 100), (''mnt_staking'', 20 / 109 * 100)],
              upcoming_expirations = 0 \<rparr>"
  by (simp add: calculate_integrated_allocation_closed strategy_names_def is_active_def
        time_to_expiry_def expired_policy_def expired_snapshot_def default_agent_def
        expiring_soon_def plan_allocation_def normalize_allocation_def base_allocation_def
        risk_multiplier_def ratio_of_def reserves_needed_def spread_of_def)

section \<open>The target allocation\<close>

text \<open>
  Claim C3. The target allocation has one entry for each of the three strategies, in their
  fixed order. When \<open>deployable_funds\<close> is positive the entries are the base weights, the
  first one scaled by the risk multiplier, each divided by their sum and multiplied by 100;
  these percentages sum to 100 within 1e-6 (in exact arithmetic the sum is 100). When
  \<open>deployable_funds\<close> is not positive, the allocation is the three strategies with 0 each.
\<close>

theorem allocation_sums_to_100:
  "\<exists>p. calculate_integrated_allocation self g now snap = Inr p
     \<and> map fst (optimal_allocation p) = [''init_looping'', ''circuit_vault'', ''mnt_staking'']
     \<and> (deployable_funds p > 0 \<longrightarrow>
           optimal_allocation p =
             (let m = risk_multiplier (length (active_policies snap));
                  total = 0.45 * m + 0.35 + 0.20
              in [(''init_looping'', (0.45 * m / total) * 100),
                  (''circuit_vault'', (0.35 / total) * 100),
                  (''mnt_staking'', (0.20 / total) * 100)])
         \<and> sum_list (map snd (optimal_allocation p)) = 100
         \<and> \<bar>sum_list (map snd (optimal_allocation p)) - 100\<bar> \<le> 1 / 10 ^ 6)
     \<and> (deployable_funds p \<le> 0 \<longrightarrow>
           optimal_allocation p =
             [(''init_looping'', 0), (''circuit_vault'', 0), (''mnt_staking'', 0)]
         \<and> (\<forall>(k, v) \<in> set (optimal_allocation p). v = 0))"
proof -
  define d where "d = max 0 (available_liquidity snap - reserves_needed snap)"
  define n where "n = length (active_policies snap)"
  have keys: "map fst (plan_allocation d n) = [''init_looping'', ''circuit_vault'', ''mnt_staking'']"
    by (simp add: plan_allocation_def normalize_allocation_def base_allocation_def Let_def)
  have weights: "d > 0 \<longrightarrow> plan_allocation d n =
             (let m = risk_multiplier n; total = 0.45 * m + 0.35 + 0.20
              in [(''init_looping'', (0.45 * m / total) * 100),
                  (''circuit_vault'', (0.35 / total) * 100),
                  (''mnt_staking'', (0.20 / total) * 100)])"
    by (simp add: plan_allocation_def normalize_allocation_def base_allocation_def Let_def)
  have total: "d > 0 \<longrightarrow> sum_list (map snd (plan_allocation d n)) = 100"
    by (simp add: plan_allocation_sum)
  have zeros: "d \<le> 0 \<longrightarrow> plan_allocation d n =
             [(''init_looping'', 0), (''circuit_vault'', 0), (''mnt_staking'', 0)]"
    by (simp add: plan_allocation_def)
  show ?thesis
    unfolding calculate_integrated_allocation_closed d_def [symmetric] n_def [symmetric]
    using keys weights total zeros
    by (cases "d > 0") simp_all
qed

text \<open>
  Both cases of C3 occur: Scenario 1 deploys funds, with no active policy and so a multiplier
  of 1.2; the overdrawn snapshot deploys nothing.
\<close>

theorem allocation_sums_to_100_witness:
  "(\<exists>p. calculate_integrated_allocation default_agent (get_strategy_apy offline_env) 0
          scenario1_snapshot = Inr p
     \<and> deployable_funds p > 0
     \<and> optimal_allocation p =
          [(''init_looping'', 5400 / 109), (''circuit_vault'', 3500 / 109),
           (''mnt_staking'', 2000 / 109)]
     \<and> \<bar>sum_list (map snd (optimal_allocation p)) - 100\<bar> \<le> 1 / 10 ^ 6)
   \<and> (\<exists>p. calculate_integrated_allocation default_agent (get_strategy_apy offline_env) 0
          overdrawn_snapshot = Inr p
     \<and> deployable_funds p \<le> 0
     \<and> optimal_allocation p =
          [(''init_looping'', 0), (''circuit_vault'', 0), (''mnt_staking'', 0)])"
proof
  from allocation_sums_to_100
      [of default_agent "get_strategy_apy offline_env" 0 scenario1_snapshot]
  obtain p where
    p: "calculate_integrated_allocation default_agent (get_strategy_apy offline_env) 0
          scenario1_snapshot = Inr p"
    and deploy: "deployable_funds p > 0 \<longrightarrow>
           optimal_allocation p =
             (let m = risk_multiplier (length (active_policies scenario1_snapshot));
                  total = 0.45 * m + 0.35 + 0.20
              in [(''init_looping'', (0.45 * m / total) * 100),
                  (''circuit_vault'', (0.35 / total) * 100),
                  (''mnt_staking'', (0.20 / total) * 100)])
         \<and> sum_list (map snd (optimal_allocation p)) = 100
         \<and> \<bar>sum_list (map snd (optimal_allocation p)) - 100\<bar> \<le> 1 / 10 ^ 6"
    by (elim exE conjE)
  have pos: "0 < deployable_funds p"
    using p unfolding calculate_integrated_allocation_closed
    by (auto simp add: scenario1_snapshot_def reserves_needed_def)
  from deploy pos have facts:
    "optimal_allocation p =
             (let m = risk_multiplier (length (active_policies scenario1_snapshot));
                  total = 0.45 * m + 0.35 + 0.20
              in [(''init_looping'', (0.45 * m / total) * 100),
                  (''circuit_vault'', (0.35 / total) * 100),
                  (''mnt_staking'', (0.20 / total) * 100)])
         \<and> sum_list (map snd (optimal_allocation p)) = 100
         \<and> \<bar>sum_list (map snd (optimal_allocation p)) - 100\<bar> \<le> 1 / 10 ^ 6"
    by (rule mp)
  have m: "risk_multiplier (length (active_policies scenario1_snapshot)) = 1.2"
    by (simp add: scenario1_snapshot_def risk_multiplier_def)
  have alloc: "optimal_allocation p =
          [(''init_looping'', 5400 / 109), (''circuit_vault'', 3500 / 109),
           (''mnt_staking'', 2000 / 109)]"
    using conjunct1 [OF facts] unfolding m Let_def by simp
  have tol: "\<bar>sum_list (map snd (optimal_allocation p)) - 100\<bar> \<le> 1 / 10 ^ 6"
    using facts by (elim conjE)
  show "\<exists>p. calculate_integrated_allocation default_agent (get_strategy_apy offline_env) 0
          scenario1_snapshot = Inr p
     \<and> deployable_funds p > 0
     \<and> optimal_allocation p =
          [(''init_looping'', 5400 / 109), (''circuit_vault'', 3500 / 109),
           (''mnt_staking'', 2000 / 109)]
     \<and> \<bar>sum_list (map snd (optimal_allocation p)) - 100\<bar> \<le> 1 / 10 ^ 6"
    by (intro exI [of _ p] conjI) (fact p, fact pos, fact alloc, fact tol)
next
  from allocation_sums_to_100
      [of default_agent "get_strategy_apy offline_env" 0 overdrawn_snapshot]
  obtain p where
    p: "calculate_integrated_allocation default_agent (get_strategy_apy offline_env) 0
          overdrawn_snapshot = Inr p"
    and idle: "deployable_funds p \<le> 0 \<longrightarrow>
           optimal_allocation p =
             [(''init_looping'', 0), (''circuit_vault'', 0), (''mnt_staking'', 0)]
         \<and> (\<forall>(k, v) \<in> set (optimal_allocation p). v = 0)"
    by (elim exE conjE)
  have none: "deployable_funds p \<le> 0"
    using p unfolding calculate_integrated_allocation_closed
    by (auto simp add: overdrawn_snapshot_def reserves_needed_def)
  from idle none have
    "optimal_allocation p =
             [(''init_looping'', 0), (''circuit_vault'', 0), (''mnt_staking'', 0)]
         \<and> (\<forall>(k, v) \<in> set (optimal_allocation p). v = 0)"
    by (rule mp)
  then have alloc: "optimal_allocation p =
             [(''init_looping'', 0), (''circuit_vault'', 0), (''mnt_staking'', 0)]"
    by (rule conjunct1)
  show "\<exists>p. calculate_integrated_allocation default_agent (get_strategy_apy offline_env) 0
          overdrawn_snapshot = Inr p
     \<and> deployable_funds p \<le> 0
     \<and> optimal_allocation p =
          [(''init_looping'', 0), (''circuit_vault'', 0), (''mnt_staking'', 0)]"
    by (intro exI [of _ p] conjI) (fact p, fact none, fact alloc)
qed

lemma normalized_twelve:
  "map (\<lambda>(k, v). (k, round (v * 10))) (normalize_allocation (base_allocation 12)) =
      [(''init_looping'', 396), (''circuit_vault'', 385), (''mnt_staking'', 220)]"
  by (simp add: normalize_allocation_def base_allocation_def risk_multiplier_def round_def)

text \<open>
  Claim C4. The risk multiplier is 0.8 above ten active policies, 1.2 below three and 1.0
  otherwise, and it scales the weight of the first strategy only. With twelve active policies
  the weights are 0.36, 0.35 and 0.20, and the percentages, rounded to one decimal, are 39.6,
  38.5 and 22.0 (\<open>round (10 * v)\<close> is 396, 385 and 220).
\<close>

theorem risk_multiplier_scales_first_weight:
  "risk_multiplier n = (if n > 10 then 0.8 else if n < 3 then 1.2 else 1.0)
   \<and> base_allocation n =
       [(''init_looping'', 0.45 * risk_multiplier n), (''circuit_vault'', 0.35),
        (''mnt_staking'', 0.20)]
   \<and> base_allocation 12 =
       [(''init_looping'', 0.36), (''circuit_vault'', 0.35), (''mnt_staking'', 0.20)]
   \<and> (\<exists>p. calculate_integrated_allocation self g now snap = Inr p
        \<and> (deployable_funds p > 0 \<longrightarrow>
              optimal_allocation p =
                normalize_allocation (base_allocation (length (active_policies snap)))
            \<and> (length (active_policies snap) = 12 \<longrightarrow>
                  map (\<lambda>(k, v). (k, round (v * 10))) (optimal_allocation p) =
                    [(''init_looping'', 396), (''circuit_vault'', 385),
                     (''mnt_staking'', 220)])))"
proof (intro conjI)
  show "risk_multiplier n = (if n > 10 then 0.8 else if n < 3 then 1.2 else 1.0)"
    by (simp add: risk_multiplier_def)
  show "base_allocation n =
       [(''init_looping'', 0.45 * risk_multiplier n), (''circuit_vault'', 0.35),
        (''mnt_staking'', 0.20)]"
    by (simp add: base_allocation_def)
  show "base_allocation 12 =
       [(''init_looping'', 0.36), (''circuit_vault'', 0.35), (''mnt_staking'', 0.20)]"
    by (simp add: base_allocation_def risk_multiplier_def)
  show "\<exists>p. calculate_integrated_allocation self g now snap = Inr p
        \<and> (deployable_funds p > 0 \<longrightarrow>
              optimal_allocation p =
                normalize_allocation (base_allocation (length (active_policies snap)))
            \<and> (length (active_policies snap) = 12 \<longrightarrow>
                  map (\<lambda>(k, v). (k, round (v * 10))) (optimal_allocation p) =
                    [(''init_looping'', 396), (''circuit_vault'', 385),
                     (''mnt_staking'', 220)]))"
    unfolding calculate_integrated_allocation_closed
    using normalized_twelve
    by (simp add: plan_allocation_def)
qed

lemma busy_snapshot_fields:
  "available_liquidity busy_snapshot = 100000"
  "total_reserves_required busy_snapshot = 12000"
  "length (active_policies busy_snapshot) = 12"
  by (simp_all add: busy_snapshot_def)

text \<open>Scenario 3 of C4 on a snapshot with twelve active policies and funds to deploy.\<close>

theorem risk_multiplier_scales_first_weight_witness:
  "\<exists>p. calculate_integrated_allocation default_agent (get_strategy_apy offline_env) 0
          busy_snapshot = Inr p
     \<and> deployable_funds p > 0
     \<and> length (active_policies busy_snapshot) = 12
     \<and> map (\<lambda>(k, v). (k, round (v * 10))) (optimal_allocation p) =
          [(''init_looping'', 396), (''circuit_vault'', 385), (''mnt_staking'', 220)]"
proof -
  from risk_multiplier_scales_first_weight
      [of 12 default_agent "get_strategy_apy offline_env" 0 busy_snapshot]
  obtain p where
    p: "calculate_integrated_allocation default_agent (get_strategy_apy offline_env) 0
          busy_snapshot = Inr p"
    and rest: "deployable_funds p > 0 \<longrightarrow>
              optimal_allocation p =
                normalize_allocation (base_allocation (length (active_policies busy_snapshot)))
            \<and> (length (active_policies busy_snapshot) = 12 \<longrightarrow>
                  map (\<lambda>(k, v). (k, round (v * 10))) (optimal_allocation p) =
                    [(''init_looping'', 396), (''circuit_vault'', 385),
                     (''mnt_staking'', 220)])"
    by (elim conjE exE)
  have pos: "0 < deployable_funds p"
    using p unfolding calculate_integrated_allocation_closed
    by (auto simp add: busy_snapshot_fields reserves_needed_def)
  from rest pos have
    "optimal_allocation p =
       normalize_allocation (base_allocation (length (active_policies busy_snapshot)))
     \<and> (length (active_policies busy_snapshot) = 12 \<longrightarrow>
           map (\<lambda>(k, v). (k, round (v * 10))) (optimal_allocation p) =
             [(''init_looping'', 396), (''circuit_vault'', 385), (''mnt_staking'', 220)])"
    by (rule mp)
  then have "length (active_policies busy_snapshot) = 12 \<longrightarrow>
           map (\<lambda>(k, v). (k, round (v * 10))) (optimal_allocation p) =
             [(''init_looping'', 396), (''circuit_vault'', 385), (''mnt_staking'', 220)]"
    by (rule conjunct2)
  from this busy_snapshot_fields(3) have rounded:
    "map (\<lambda>(k, v). (k, round (v * 10))) (optimal_allocation p) =
       [(''init_looping'', 396), (''circuit_vault'', 385), (''mnt_staking'', 220)]"
    by (rule mp)
  show ?thesis
    by (intro exI [of _ p] conjI) (fact p, fact pos, fact busy_snapshot_fields(3), fact rounded)
qed

section \<open>Negative liquidity\<close>

text \<open>
  Claim C7, as stated, fails. The claim has the calculation fail with an error when
  \<open>available_liquidity\<close> is negative. The code has no such check and raises nothing: with
  liquidity -1 it returns a plan.
\<close>

theorem negative_liquidity_counterexample:
  "available_liquidity overdrawn_snapshot < 0
   \<and> calculate_integrated_allocation default_agent (get_strategy_apy offline_env) 0
        overdrawn_snapshot
      = Inr \<lparr> should_rebalance = True,
              reasons = [InsufficientReserves, ApySpread 4],
              total_funds = - 1,
              required_reserves = 20000, safety_buffer = 4000, deployable_funds = 0,
              current_reserve_ratio = 0,
              strategy_apys = [(''init_looping'', 8.5), (''circuit_vault'', 6.8),
                               (''mnt_staking'', 4.5)],
              optimal_allocation = [(''init_looping'', 0), (''circuit_vault'', 0),
                                    (''mnt_staking'', 0)],
              upcoming_expirations = 0 \<rparr>"
  by (simp add: calculate_integrated_allocation_closed offline_spread offline_apys
        strategy_names_def overdrawn_snapshot_def default_agent_def ratio_of_def
        reserves_needed_def plan_allocation_def)

text \<open>
  Claim C7, amended. For every snapshot with negative \<open>available_liquidity\<close> the calculation
  returns a plan, with \<open>current_reserve_ratio = 0\<close> and \<open>deployable_funds\<close> computed as for
  any other snapshot; when the required reserves are not negative, \<open>deployable_funds = 0\<close>.
\<close>

theorem negative_liquidity_returns_plan:
  "available_liquidity snap < 0 \<Longrightarrow>
   \<exists>p. calculate_integrated_allocation self g now snap = Inr p
     \<and> current_reserve_ratio p = 0
     \<and> deployable_funds p =
          max 0 (available_liquidity snap - (required_reserves p + safety_buffer p))
     \<and> (0 \<le> total_reserves_required snap \<longrightarrow> deployable_funds p = 0)"
  by (simp add: calculate_integrated_allocation_closed ratio_of_def reserves_needed_def)

text \<open>The amended C7 on the overdrawn snapshot.\<close>

theorem negative_liquidity_returns_plan_witness:
  "available_liquidity overdrawn_snapshot < 0
   \<and> 0 \<le> total_reserves_required overdrawn_snapshot
   \<and> (\<exists>p. calculate_integrated_allocation default_agent (get_strategy_apy offline_env) 0
          overdrawn_snapshot = Inr p
        \<and> current_reserve_ratio p = 0 \<and> deployable_funds p = 0)"
proof -
  have neg: "available_liquidity overdrawn_snapshot < 0"
    by (simp add: overdrawn_snapshot_def)
  have res: "0 \<le> total_reserves_required overdrawn_snapshot"
    by (simp add: overdrawn_snapshot_def)
  show ?thesis
    using negative_liquidity_returns_plan
      [OF neg, of default_agent "get_strategy_apy offline_env" 0] neg res
    by blast
qed

section \<open>The strategy manager\<close>

lemma unknown_strategy:
  "strategy_name \<notin> {''init_looping'', ''circuit_vault'', ''mnt_staking''} \<Longrightarrow>
   strategies strategy_name = None"
  by (simp add: strategies_def)

text \<open>
  Claim C10. For a strategy name that is not one of the three registered, \<open>deploy_to_strategy\<close>
  and \<open>withdraw_from_strategy\<close> return the dictionary with \<open>success = False\<close> and the error
  text, make no call on a strategy object and raise nothing, and \<open>get_strategy_apy\<close> returns
  0.0.
\<close>

theorem unknown_strategy_fails_without_adapter:
  "strategy_name \<notin> {''init_looping'', ''circuit_vault'', ''mnt_staking''} \<Longrightarrow>
     deploy_to_strategy e strategy_name amt =
       ([(''success'', PBool False), (''error'', PStr (''Unknown strategy: '' @ strategy_name))], [])
   \<and> withdraw_from_strategy e strategy_name amt =
       ([(''success'', PBool False), (''error'', PStr (''Unknown strategy: '' @ strategy_name))], [])
   \<and> \<not> success (fst (deploy_to_strategy e strategy_name amt))
   \<and> \<not> success (fst (withdraw_from_strategy e strategy_name amt))
   \<and> get_strategy_apy e strategy_name = 0.0"
  by (simp add: unknown_strategy deploy_to_strategy_def withdraw_from_strategy_def
        get_strategy_apy_def failure_dict_def success_def)

text \<open>C10 on the unregistered name \<open>aave_lending\<close>.\<close>

theorem unknown_strategy_fails_without_adapter_witness:
  "deploy_to_strategy offline_env ''aave_lending'' 250 =
       ([(''success'', PBool False), (''error'', PStr ''Unknown strategy: aave_lending'')], [])
   \<and> withdraw_from_strategy offline_env ''aave_lending'' 250 =
       ([(''success'', PBool False), (''error'', PStr ''Unknown strategy: aave_lending'')], [])
   \<and> get_strategy_apy offline_env ''aave_lending'' = 0"
  using unknown_strategy_fails_without_adapter [of "''aave_lending''" offline_env 250]
  by simp

section \<open>Recovery at the fetch boundary\<close>

lemma collect_policies_raises:
  "pid \<in> set xs \<Longrightarrow> isl (info pid) \<Longrightarrow> isl (collect_policies info xs)"
  by (induction xs) (auto split: sum.splits)

lemma collect_policies_caught:
  "\<not> isl (collect_policies (\<lambda>pid. Inr (f pid)) xs)"
  by (induction xs) (auto split: sum.splits)

lemma snapshot_try_helpers:
  "\<not> isl (snapshot_try (Inr xs) (\<lambda>pid. Inr (f pid)) (Inr liq) now)"
  using collect_policies_caught [of f xs]
  by (auto simp add: snapshot_try_def Let_def split: sum.splits)

lemma collect_policies_kept:
  "collect_policies (\<lambda>pid. Inr (f pid)) xs = Inr (List.map_filter f xs)"
  by (induction xs) (simp_all add: List.map_filter_simps split: option.splits)

lemma get_protocol_snapshot_closed:
  "get_protocol_snapshot c now =
     \<lparr> total_policies = length (List.map_filter (get_policy_info c) (get_open_policy_ids c)),
       active_policies = [],
       open_policies = List.map_filter (get_policy_info c) (get_open_policy_ids c),
       total_reserves_required = 0,
       available_liquidity = get_available_liquidity c,
       pending_settlements = [],
       timestamp = now \<rparr>"
  by (simp add: get_protocol_snapshot_def get_protocol_snapshot_with_def snapshot_try_def
        collect_policies_kept Let_def)

lemma get_policy_info_id:
  "get_policy_info c pid = Some p \<Longrightarrow> policy_id p = pid"
  by (auto simp add: get_policy_info_def split: sum.splits)

lemma map_filter_source:
  "p \<in> set (List.map_filter f xs) \<Longrightarrow> \<exists>x \<in> set xs. f x = Some p"
  by (induction xs) (auto split: option.splits)

lemma failed_policy_left_out:
  assumes "isl (getPolicy c pid)"
  shows "get_policy_info c pid = None"
    and "\<forall>p \<in> set (open_policies (get_protocol_snapshot c now)). policy_id p \<noteq> pid"
proof -
  show none: "get_policy_info c pid = None"
    using assms by (auto simp add: get_policy_info_def split: sum.splits)
  show "\<forall>p \<in> set (open_policies (get_protocol_snapshot c now)). policy_id p \<noteq> pid"
  proof
    fix p
    assume "p \<in> set (open_policies (get_protocol_snapshot c now))"
    then obtain x where "get_policy_info c x = Some p"
      by (auto simp add: get_protocol_snapshot_closed dest: map_filter_source)
    then have "policy_id p = x" and "get_policy_info c (policy_id p) = Some p"
      using get_policy_info_id by blast+
    with none show "policy_id p \<noteq> pid" by auto
  qed
qed

lemma flaky_policy:
  "get_policy_info flaky_chain 1 = None"
  "get_policy_info flaky_chain 2 =
     Some \<lparr> policy_id = 2, seller = ''0xA'', buyer = None, token = ''0xC'',
            token_symbol = ''WETH'', amount = 1, payout_token = ''0xD'', payout_amount = 5,
            duration = 86400, upside_share_bps = 500, entry_price = 2400,
            start_timestamp = None, expiry_timestamp = None, state = ''Open'' \<rparr>"
  by (simp_all add: get_policy_info_def flaky_chain_def sample_policy_data_def py_index_def)

lemma flaky_snapshot:
  "get_protocol_snapshot flaky_chain 5 =
     \<lparr> total_policies = 1, active_policies = [],
       open_policies =
         [\<lparr> policy_id = 2, seller = ''0xA'', buyer = None, token = ''0xC'',
            token_symbol = ''WETH'', amount = 1, payout_token = ''0xD'', payout_amount = 5,
            duration = 86400, upside_share_bps = 500, entry_price = 2400,
            start_timestamp = None, expiry_timestamp = None, state = ''Open'' \<rparr>],
       total_reserves_required = 0, available_liquidity = 250,
       pending_settlements = [], timestamp = 5 \<rparr>"
proof -
  have ids: "get_open_policy_ids flaky_chain = [1, 2]"
    by (simp add: get_open_policy_ids_def flaky_chain_def)
  have liq: "get_available_liquidity flaky_chain = 250"
    by (simp add: get_available_liquidity_def flaky_chain_def)
  show ?thesis
    unfolding get_protocol_snapshot_closed ids liq
    by (simp add: List.map_filter_simps flaky_policy)
qed

text \<open>
  Claim C9. \<open>get_protocol_snapshot\<close> does not raise: it returns a snapshot for every chain.
  Each failed read is replaced where it is made: a failed call for the open policy ids gives
  no open policy, a failed \<open>getPolicy\<close> leaves that policy out, a failed \<open>balanceOf\<close> gives a
  liquidity of 0, and a read that succeeds is used as it is (a policy whose state index is
  out of range is left out as well). When the calls for the ids and
  for the balance both fail, the result is the fallback snapshot (all counts and amounts 0,
  all lists empty). That snapshot is also what the method's own handler returns whenever the
  \<open>try\<close> body raises, which it does as soon as one awaited helper raises; the helpers of the
  class catch their own failures, so with them the body does not raise. Each strategy's
  \<open>get_current_apy\<close> returns its fallback constant, 8.5, 6.8 or 4.5, as soon as one of its
  fetches raises.
\<close>

theorem fetch_failures_recovered:
  "(isl (snapshot_try ids info liquidity now) \<longrightarrow>
      get_protocol_snapshot_with ids info liquidity now =
        \<lparr> total_policies = 0, active_policies = [], open_policies = [],
          total_reserves_required = 0, available_liquidity = 0,
          pending_settlements = [], timestamp = now \<rparr>)
   \<and> (isl ids \<or> isl liquidity \<or> (\<exists>xs pid. ids = Inr xs \<and> pid \<in> set xs \<and> isl (info pid))
        \<longrightarrow> isl (snapshot_try ids info liquidity now))
   \<and> \<not> isl (snapshot_try (Inr (get_open_policy_ids c)) (\<lambda>pid. Inr (get_policy_info c pid))
               (Inr (get_available_liquidity c)) now)
   \<and> (isl (getOpenPolicyIds c) \<and> isl (balanceOf c) \<longrightarrow>
        get_protocol_snapshot c now = fallback_snapshot now)
   \<and> (isl (fetch e ''_fetch_init_supply_apy'') \<or> isl (fetch e ''_fetch_init_borrow_apy'')
        \<or> isl (fetch e ''_fetch_mnt_rewards_apy'')
        \<longrightarrow> get_current_apy e INITLoopingStrategy = 8.5)
   \<and> (isl (fetch e ''_fetch_circuit_apy'') \<longrightarrow> get_current_apy e CircuitProtocolStrategy = 6.8)
   \<and> (isl (fetch e ''_fetch_mnt_staking_apy'') \<or> isl (fetch e ''_fetch_network_fees_apy'')
        \<longrightarrow> get_current_apy e MNTStakingStrategy = 4.5)
   \<and> get_protocol_snapshot c now =
        \<lparr> total_policies = length (List.map_filter (get_policy_info c) (get_open_policy_ids c)),
          active_policies = [],
          open_policies = List.map_filter (get_policy_info c) (get_open_policy_ids c),
          total_reserves_required = 0,
          available_liquidity = get_available_liquidity c,
          pending_settlements = [],
          timestamp = now \<rparr>
   \<and> (isl (getOpenPolicyIds c) \<longrightarrow>
        open_policies (get_protocol_snapshot c now) = []
        \<and> total_policies (get_protocol_snapshot c now) = 0)
   \<and> (isl (balanceOf c) \<longrightarrow> available_liquidity (get_protocol_snapshot c now) = 0)
   \<and> (isl (getPolicy c failed) \<longrightarrow>
        get_policy_info c failed = None
        \<and> (\<forall>p \<in> set (open_policies (get_protocol_snapshot c now)). policy_id p \<noteq> failed))
   \<and> (\<forall>result. getOpenPolicyIds c = Inr result \<longrightarrow> get_open_policy_ids c = result)
   \<and> (\<forall>balance_wei. balanceOf c = Inr balance_wei \<longrightarrow>
        available_liquidity (get_protocol_snapshot c now) = real balance_wei / 10 ^ 6)
   \<and> (\<forall>d. getPolicy c read = Inr d \<longrightarrow>
        (pd_state d < 4 \<longrightarrow>
           (\<exists>p. get_policy_info c read = Some p
              \<and> policy_id p = read
              \<and> payout_amount p = real (pd_payout_amount d) / 10 ^ 6
              \<and> state p = [''Open'', ''Active'', ''Settled'', ''Cancelled''] ! pd_state d))
        \<and> (\<not> pd_state d < 4 \<longrightarrow> get_policy_info c read = None))"
proof (intro conjI)
  show "isl (snapshot_try ids info liquidity now) \<longrightarrow>
      get_protocol_snapshot_with ids info liquidity now =
        \<lparr> total_policies = 0, active_policies = [], open_policies = [],
          total_reserves_required = 0, available_liquidity = 0,
          pending_settlements = [], timestamp = now \<rparr>"
    by (auto simp add: get_protocol_snapshot_with_def fallback_snapshot_def split: sum.splits)
  show "isl ids \<or> isl liquidity \<or> (\<exists>xs pid. ids = Inr xs \<and> pid \<in> set xs \<and> isl (info pid))
        \<longrightarrow> isl (snapshot_try ids info liquidity now)"
    by (auto simp add: snapshot_try_def Let_def split: sum.splits
          dest: collect_policies_raises)
  show "\<not> isl (snapshot_try (Inr (get_open_policy_ids c)) (\<lambda>pid. Inr (get_policy_info c pid))
               (Inr (get_available_liquidity c)) now)"
    by (rule snapshot_try_helpers)
  show "isl (getOpenPolicyIds c) \<and> isl (balanceOf c) \<longrightarrow>
        get_protocol_snapshot c now = fallback_snapshot now"
    by (auto simp add: get_protocol_snapshot_def get_protocol_snapshot_with_def snapshot_try_def
          get_open_policy_ids_def get_available_liquidity_def fallback_snapshot_def Let_def
          split: sum.splits)
  show "isl (fetch e ''_fetch_init_supply_apy'') \<or> isl (fetch e ''_fetch_init_borrow_apy'')
        \<or> isl (fetch e ''_fetch_mnt_rewards_apy'')
        \<longrightarrow> get_current_apy e INITLoopingStrategy = 8.5"
    by (auto split: sum.splits)
  show "isl (fetch e ''_fetch_circuit_apy'') \<longrightarrow> get_current_apy e CircuitProtocolStrategy = 6.8"
    by (auto split: sum.splits)
  show "isl (fetch e ''_fetch_mnt_staking_apy'') \<or> isl (fetch e ''_fetch_network_fees_apy'')
        \<longrightarrow> get_current_apy e MNTStakingStrategy = 4.5"
    by (auto split: sum.splits)
  show "get_protocol_snapshot c now =
        \<lparr> total_policies = length (List.map_filter (get_policy_info c) (get_open_policy_ids c)),
          active_policies = [],
          open_policies = List.map_filter (get_policy_info c) (get_open_policy_ids c),
          total_reserves_required = 0,
          available_liquidity = get_available_liquidity c,
          pending_settlements = [],
          timestamp = now \<rparr>"
    by (rule get_protocol_snapshot_closed)
  show "isl (getOpenPolicyIds c) \<longrightarrow>
        open_policies (get_protocol_snapshot c now) = []
        \<and> total_policies (get_protocol_snapshot c now) = 0"
    by (auto simp add: get_protocol_snapshot_closed get_open_policy_ids_def split: sum.splits)
  show "isl (balanceOf c) \<longrightarrow> available_liquidity (get_protocol_snapshot c now) = 0"
    by (auto simp add: get_protocol_snapshot_closed get_available_liquidity_def
          split: sum.splits)
  show "isl (getPolicy c failed) \<longrightarrow>
        get_policy_info c failed = None
        \<and> (\<forall>p \<in> set (open_policies (get_protocol_snapshot c now)). policy_id p \<noteq> failed)"
    using failed_policy_left_out(1) [of c failed] failed_policy_left_out(2) [of c failed now]
    by blast
  show "\<forall>result. getOpenPolicyIds c = Inr result \<longrightarrow> get_open_policy_ids c = result"
    by (simp add: get_open_policy_ids_def)
  show "\<forall>balance_wei. balanceOf c = Inr balance_wei \<longrightarrow>
        available_liquidity (get_protocol_snapshot c now) = real balance_wei / 10 ^ 6"
    by (simp add: get_protocol_snapshot_closed get_available_liquidity_def)
  show "\<forall>d. getPolicy c read = Inr d \<longrightarrow>
        (pd_state d < 4 \<longrightarrow>
           (\<exists>p. get_policy_info c read = Some p
              \<and> policy_id p = read
              \<and> payout_amount p = real (pd_payout_amount d) / 10 ^ 6
              \<and> state p = [''Open'', ''Active'', ''Settled'', ''Cancelled''] ! pd_state d))
        \<and> (\<not> pd_state d < 4 \<longrightarrow> get_policy_info c read = None)"
    by (simp add: get_policy_info_def py_index_def)
qed

text \<open>
  C9 with a helper that raises, on the dead chain, on the chain where the read of policy 1
  fails and the other reads succeed, and with every APY feed down.
\<close>

theorem fetch_failures_recovered_witness:
  "get_protocol_snapshot_with (Inl (PyException ''TypeError'' ''not iterable''))
       (\<lambda>pid. Inr None) (Inr 0) 5 = fallback_snapshot 5
   \<and> get_protocol_snapshot dead_chain 5 = fallback_snapshot 5
   \<and> get_current_apy offline_env INITLoopingStrategy = 8.5
   \<and> get_current_apy offline_env CircuitProtocolStrategy = 6.8
   \<and> get_current_apy offline_env MNTStakingStrategy = 4.5
   \<and> open_policies (get_protocol_snapshot dead_chain 5) = []
   \<and> available_liquidity (get_protocol_snapshot dead_chain 5) = 0
   \<and> map policy_id (open_policies (get_protocol_snapshot flaky_chain 5)) = [2]
   \<and> 1 \<notin> policy_id ` set (open_policies (get_protocol_snapshot flaky_chain 5))
   \<and> available_liquidity (get_protocol_snapshot flaky_chain 5) = 250
   \<and> (\<exists>p. get_policy_info flaky_chain 2 = Some p \<and> policy_id p = 2
          \<and> payout_amount p = 5 \<and> state p = ''Open'')"
proof -
  note dead = fetch_failures_recovered
    [where ids = "Inl (PyException ''TypeError'' ''not iterable'')"
       and info = "\<lambda>pid. Inr None" and liquidity = "Inr 0" and now = 5
       and c = dead_chain and e = offline_env and failed = 1 and read = 2]
  note flaky = fetch_failures_recovered
    [where ids = "Inl (PyException ''TypeError'' ''not iterable'')"
       and info = "\<lambda>pid. Inr None" and liquidity = "Inr 0" and now = 5
       and c = flaky_chain and e = offline_env and failed = 1 and read = 2]
  have old: "get_protocol_snapshot_with (Inl (PyException ''TypeError'' ''not iterable''))
       (\<lambda>pid. Inr None) (Inr 0) 5 = fallback_snapshot 5
   \<and> get_protocol_snapshot dead_chain 5 = fallback_snapshot 5
   \<and> get_current_apy offline_env INITLoopingStrategy = 8.5
   \<and> get_current_apy offline_env CircuitProtocolStrategy = 6.8
   \<and> get_current_apy offline_env MNTStakingStrategy = 4.5
   \<and> open_policies (get_protocol_snapshot dead_chain 5) = []
   \<and> available_liquidity (get_protocol_snapshot dead_chain 5) = 0"
    using dead by (simp add: dead_chain_def offline_env_def fallback_snapshot_def)
  have fails: "isl (getPolicy flaky_chain 1)"
    by (simp add: flaky_chain_def)
  have "\<forall>p \<in> set (open_policies (get_protocol_snapshot flaky_chain 5)). policy_id p \<noteq> 1"
    using flaky fails by blast
  then have skipped: "1 \<notin> policy_id ` set (open_policies (get_protocol_snapshot flaky_chain 5))"
    by auto
  have kept: "map policy_id (open_policies (get_protocol_snapshot flaky_chain 5)) = [2]"
    by (simp add: flaky_snapshot)
  have balance: "balanceOf flaky_chain = Inr 250000000"
    by (simp add: flaky_chain_def)
  have "available_liquidity (get_protocol_snapshot flaky_chain 5) = real 250000000 / 10 ^ 6"
    using flaky balance by blast
  then have liq: "available_liquidity (get_protocol_snapshot flaky_chain 5) = 250"
    by simp
  have read: "getPolicy flaky_chain 2 = Inr sample_policy_data"
    by (simp add: flaky_chain_def)
  have index: "pd_state sample_policy_data < 4"
    by (simp add: sample_policy_data_def)
  from flaky read index obtain p where
    "get_policy_info flaky_chain 2 = Some p" and "policy_id p = 2"
    and "payout_amount p = real (pd_payout_amount sample_policy_data) / 10 ^ 6"
    and "state p = [''Open'', ''Active'', ''Settled'', ''Cancelled''] ! pd_state sample_policy_data"
    by blast
  then have converted: "\<exists>p. get_policy_info flaky_chain 2 = Some p \<and> policy_id p = 2
          \<and> payout_amount p = 5 \<and> state p = ''Open''"
    by (simp add: sample_policy_data_def)
  show ?thesis
    using old skipped kept liq converted by (intro conjI) (elim conjE, assumption)+
qed

section \<open>The reserve top-up\<close>

lemma withdrawn_Nil: "withdrawn [] = 0"
  by (simp add: withdrawn_def)

lemma withdrawn_Cons:
  "withdrawn ((name, amt, ok) # calls) = (if ok then amt else 0) + withdrawn calls"
  by (simp add: withdrawn_def)

lemma withdraw_loop_remaining:
  "fst (withdraw_loop e s sts r) = r - withdrawn (snd (withdraw_loop e s sts r))"
proof (induction sts arbitrary: r)
  case Nil
  show ?case by (simp add: withdrawn_Nil)
next
  case (Cons st sts)
  obtain name apy where st: "st = (name, apy)" by (cases st)
  show ?case
    unfolding st
    by (simp add: Let_def withdrawn_Nil withdrawn_Cons Cons.IH)
qed

lemma withdraw_loop_nonneg:
  "0 \<le> r \<Longrightarrow> 0 \<le> fst (withdraw_loop e s sts r)"
proof (induction sts arbitrary: r)
  case Nil
  then show ?case by simp
next
  case (Cons st sts)
  obtain name apy where st: "st = (name, apy)" by (cases st)
  have step: "0 \<le> r - min r (s * 0.5)" by simp
  show ?case
    unfolding st
    using Cons.prems Cons.IH [OF step] Cons.IH [OF Cons.prems]
    by (simp add: Let_def)
qed

lemma withdraw_loop_bound:
  "0 \<le> r \<Longrightarrow> withdrawn (snd (withdraw_loop e s sts r)) \<le> r"
  using withdraw_loop_nonneg [of r e s sts] withdraw_loop_remaining [of e s sts r]
  by linarith

lemma withdraw_loop_prefix:
  "map fst (snd (withdraw_loop e s sts r))
     = take (length (snd (withdraw_loop e s sts r))) (map fst sts)"
proof (induction sts arbitrary: r)
  case Nil
  show ?case by simp
next
  case (Cons st sts)
  obtain name apy where st: "st = (name, apy)" by (cases st)
  show ?case
    unfolding st
    by (simp add: Let_def Cons.IH [symmetric])
qed

lemma withdraw_loop_stops:
  "length (snd (withdraw_loop e s sts r)) < length sts \<Longrightarrow>
   r - withdrawn (snd (withdraw_loop e s sts r)) \<le> 0"
proof (induction sts arbitrary: r)
  case Nil
  then show ?case by simp
next
  case (Cons st sts)
  obtain name apy where st: "st = (name, apy)" by (cases st)
  show ?case
  proof (cases "r \<le> 0")
    case True
    then show ?thesis unfolding st by (simp add: withdrawn_Nil)
  next
    case False
    define amt where "amt = min r (s * 0.5)"
    define ok where "ok = success (fst (withdraw_from_strategy e name amt))"
    define r' where "r' = (if ok then r - amt else r)"
    have unfold: "snd (withdraw_loop e s (st # sts) r)
        = (name, amt, ok) # snd (withdraw_loop e s sts r')"
      using False unfolding st amt_def ok_def r'_def by (simp add: Let_def)
    have len: "length (snd (withdraw_loop e s sts r')) < length sts"
      using Cons.prems unfolding unfold by simp
    have "r' - withdrawn (snd (withdraw_loop e s sts r')) \<le> 0"
      by (rule Cons.IH [OF len])
    then show ?thesis
      unfolding unfold r'_def by (cases ok) (simp_all add: withdrawn_Cons)
  qed
qed

lemma withdraw_loop_requests:
  "i < length (snd (withdraw_loop e s sts r)) \<Longrightarrow>
     0 < r - withdrawn (take i (snd (withdraw_loop e s sts r)))
   \<and> fst (snd (snd (withdraw_loop e s sts r) ! i))
       = min (r - withdrawn (take i (snd (withdraw_loop e s sts r)))) (s * 0.5)
   \<and> snd (snd (snd (withdraw_loop e s sts r) ! i))
       = success (fst (withdraw_from_strategy e
                   (fst (snd (withdraw_loop e s sts r) ! i))
                   (fst (snd (snd (withdraw_loop e s sts r) ! i)))))"
proof (induction sts arbitrary: r i)
  case Nil
  then show ?case by simp
next
  case (Cons st sts)
  obtain name apy where st: "st = (name, apy)" by (cases st)
  show ?case
  proof (cases "r \<le> 0")
    case True
    with Cons.prems show ?thesis unfolding st by simp
  next
    case False
    define amt where "amt = min r (s * 0.5)"
    define ok where "ok = success (fst (withdraw_from_strategy e name amt))"
    define r' where "r' = (if ok then r - amt else r)"
    have unfold: "snd (withdraw_loop e s (st # sts) r)
        = (name, amt, ok) # snd (withdraw_loop e s sts r')"
      using False unfolding st amt_def ok_def r'_def by (simp add: Let_def)
    show ?thesis
    proof (cases i)
      case 0
      then show ?thesis
        using False unfolding unfold
        by (simp add: withdrawn_Nil amt_def ok_def)
    next
      case (Suc j)
      have j: "j < length (snd (withdraw_loop e s sts r'))"
        using Cons.prems unfolding unfold Suc by simp
      have shift: "r - withdrawn (take (Suc j) ((name, amt, ok) # snd (withdraw_loop e s sts r')))
          = r' - withdrawn (take j (snd (withdraw_loop e s sts r')))"
        unfolding r'_def by (cases ok) (simp_all add: withdrawn_Cons)
      show ?thesis
        unfolding unfold Suc shift
        using Cons.IH [OF j] by simp
    qed
  qed
qed

lemma strategies_by_apy_sorted: "sorted (map snd (strategies_by_apy e))"
  by (simp add: strategies_by_apy_def)

lemma strategies_by_apy_distinct: "distinct (map fst (strategies_by_apy e))"
proof -
  have "distinct (map (\<lambda>name. (name, get_strategy_apy e name)) strategy_names)"
    by (simp add: strategy_names_def)
  moreover have "inj_on fst (set (map (\<lambda>name. (name, get_strategy_apy e name)) strategy_names))"
    by (auto simp add: inj_on_def)
  ultimately show ?thesis
    by (simp add: strategies_by_apy_def distinct_map)
qed

lemma offline_order:
  "strategies_by_apy offline_env =
     [(''mnt_staking'', 4.5), (''circuit_vault'', 6.8), (''init_looping'', 8.5)]"
  by (simp add: strategies_by_apy_def strategy_names_def offline_apys)

lemma staking_locked_order:
  "strategies_by_apy staking_locked_env =
     [(''mnt_staking'', 4.5), (''circuit_vault'', 6.8), (''init_looping'', 8.5)]"
  by (simp add: strategies_by_apy_def strategy_names_def get_strategy_apy_def strategies_def
        staking_locked_env_def)

lemma offline_withdrawals:
  "success (fst (withdraw_from_strategy offline_env ''mnt_staking'' amt))"
  "success (fst (withdraw_from_strategy offline_env ''circuit_vault'' amt))"
  "success (fst (withdraw_from_strategy offline_env ''init_looping'' amt))"
  by (simp_all add: withdraw_from_strategy_def strategies_def success_def offline_env_def)

lemma staking_locked_withdrawals:
  "\<not> success (fst (withdraw_from_strategy staking_locked_env ''mnt_staking'' amt))"
  "success (fst (withdraw_from_strategy staking_locked_env ''circuit_vault'' amt))"
  "success (fst (withdraw_from_strategy staking_locked_env ''init_looping'' amt))"
  by (simp_all add: withdraw_from_strategy_def strategies_def success_def
        staking_locked_env_def failure_dict_def)

lemma offline_top_up:
  "ensure_adequate_reserves offline_env (Inr 0) 5000 =
     Inr [(''mnt_staking'', 2500, True), (''circuit_vault'', 2500, True)]"
  by (simp add: ensure_adequate_reserves_def offline_order Let_def offline_withdrawals)

lemma staking_locked_top_up:
  "ensure_adequate_reserves staking_locked_env (Inr 0) 5000 =
     Inr [(''mnt_staking'', 2500, False), (''circuit_vault'', 2500, True),
          (''init_looping'', 2500, True)]"
  by (simp add: ensure_adequate_reserves_def staking_locked_order Let_def
        staking_locked_withdrawals)

lemma strategies_by_apy_set:
  "set (strategies_by_apy e) = (\<lambda>name. (name, get_strategy_apy e name)) ` set strategy_names"
  by (simp add: strategies_by_apy_def)

lemma strategies_by_apy_pairs:
  "map snd (strategies_by_apy e) = map (get_strategy_apy e) (map fst (strategies_by_apy e))"
  by (auto simp add: strategies_by_apy_set)

lemma strategies_by_apy_names:
  "set (map fst (strategies_by_apy e)) = {''init_looping'', ''circuit_vault'', ''mnt_staking''}"
  by (simp add: strategies_by_apy_set image_image strategy_names_def)

lemma strategies_by_apy_ascending:
  "sorted (map (get_strategy_apy e) (map fst (strategies_by_apy e)))"
  using strategies_by_apy_sorted [of e] by (simp only: strategies_by_apy_pairs)

lemma sorted_prefix_le:
  assumes "sorted (map f xs)" and "c \<in> set (take k xs)" and "x \<in> set xs"
    and "x \<notin> set (take k xs)"
  shows "f c \<le> f x"
proof -
  have "set xs = set (take k xs) \<union> set (drop k xs)"
    by (metis append_take_drop_id set_append)
  with assms(3,4) have x: "x \<in> set (drop k xs)" by simp
  have "sorted (map f (take k xs) @ map f (drop k xs))"
    using assms(1) by (metis append_take_drop_id map_append)
  then have "\<forall>a \<in> set (map f (take k xs)). \<forall>b \<in> set (map f (drop k xs)). a \<le> b"
    by (simp add: sorted_append)
  with assms(2) x show ?thesis by simp
qed

text \<open>
  Claim C5. The strategies are ordered by the APY that \<open>get_strategy_apy\<close> reports for each,
  ascending: the ordered list holds each of the three strategies once, paired with its APY.
  When the balance is below the required amount, the requests for withdrawal go to the
  strategies in that order, each strategy at most once, as long as \<open>remaining_shortfall\<close> is
  positive, so no strategy that gets a request has a higher APY than one that gets none; the
  amount of each request is the smaller of \<open>remaining_shortfall\<close> and half the shortfall;
  \<open>remaining_shortfall\<close> is the shortfall less the amounts of the requests that succeeded, so
  a failed request changes nothing and the loop goes on to the next strategy; and the loop
  leaves a strategy out only when nothing remains. With a shortfall of 5000, APYs 4.5, 6.8
  and 8.5 and every withdrawal succeeding, the two strategies of lowest APY give 2500 each
  and the third gets no request.
\<close>

theorem reserve_top_up_requests:
  "(map snd (strategies_by_apy e) = map (get_strategy_apy e) (map fst (strategies_by_apy e))
    \<and> set (map fst (strategies_by_apy e)) = {''init_looping'', ''circuit_vault'', ''mnt_staking''}
    \<and> distinct (map fst (strategies_by_apy e))
    \<and> sorted (map (get_strategy_apy e) (map fst (strategies_by_apy e))))
   \<and> (current_balance < required_amount \<longrightarrow>
     (\<exists>calls. ensure_adequate_reserves e (Inr current_balance) required_amount = Inr calls
        \<and> sorted (map snd (strategies_by_apy e))
        \<and> map fst calls = take (length calls) (map fst (strategies_by_apy e))
        \<and> distinct (map fst calls)
        \<and> sorted (map (get_strategy_apy e) (map fst calls))
        \<and> (\<forall>name \<in> {''init_looping'', ''circuit_vault'', ''mnt_staking''} - set (map fst calls).
             \<forall>c \<in> set (map fst calls). get_strategy_apy e c \<le> get_strategy_apy e name)
        \<and> (\<forall>i < length calls.
              0 < (required_amount - current_balance) - withdrawn (take i calls)
            \<and> fst (snd (calls ! i))
                = min ((required_amount - current_balance) - withdrawn (take i calls))
                      ((required_amount - current_balance) * 0.5)
            \<and> snd (snd (calls ! i))
                = success (fst (withdraw_from_strategy e (fst (calls ! i))
                                  (fst (snd (calls ! i))))))
        \<and> (length calls < length (strategies_by_apy e) \<longrightarrow>
              (required_amount - current_balance) - withdrawn calls \<le> 0)))
   \<and> strategies_by_apy offline_env =
       [(''mnt_staking'', 4.5), (''circuit_vault'', 6.8), (''init_looping'', 8.5)]
   \<and> ensure_adequate_reserves offline_env (Inr 0) 5000 =
       Inr [(''mnt_staking'', 2500, True), (''circuit_vault'', 2500, True)]"
proof (intro conjI impI)
  show "map snd (strategies_by_apy e) = map (get_strategy_apy e) (map fst (strategies_by_apy e))"
    by (rule strategies_by_apy_pairs)
  show "set (map fst (strategies_by_apy e)) = {''init_looping'', ''circuit_vault'', ''mnt_staking''}"
    by (rule strategies_by_apy_names)
  show "distinct (map fst (strategies_by_apy e))"
    by (rule strategies_by_apy_distinct)
  show "sorted (map (get_strategy_apy e) (map fst (strategies_by_apy e)))"
    by (rule strategies_by_apy_ascending)
next
  assume short: "current_balance < required_amount"
  define shortfall where "shortfall = required_amount - current_balance"
  define calls where "calls = snd (withdraw_loop e shortfall (strategies_by_apy e) shortfall)"
  define names where "names = map fst (strategies_by_apy e)"
  have run: "ensure_adequate_reserves e (Inr current_balance) required_amount = Inr calls"
    using short by (simp add: ensure_adequate_reserves_def Let_def calls_def shortfall_def)
  have prefix: "map fst calls = take (length calls) names"
    unfolding calls_def names_def by (rule withdraw_loop_prefix)
  have once: "distinct (map fst calls)"
    unfolding prefix names_def by (rule distinct_take) (rule strategies_by_apy_distinct)
  have asc: "sorted (map (get_strategy_apy e) names)"
    unfolding names_def by (rule strategies_by_apy_ascending)
  have asc_calls: "sorted (map (get_strategy_apy e) (map fst calls))"
    unfolding prefix using asc by (simp add: take_map [symmetric] sorted_wrt_take)
  have all_names: "set names = {''init_looping'', ''circuit_vault'', ''mnt_staking''}"
    unfolding names_def by (rule strategies_by_apy_names)
  have lowest: "\<forall>name \<in> {''init_looping'', ''circuit_vault'', ''mnt_staking''} - set (map fst calls).
             \<forall>c \<in> set (map fst calls). get_strategy_apy e c \<le> get_strategy_apy e name"
  proof (intro ballI)
    fix name c
    assume name: "name \<in> {''init_looping'', ''circuit_vault'', ''mnt_staking''} - set (map fst calls)"
      and c: "c \<in> set (map fst calls)"
    from name have "name \<in> set names" and "name \<notin> set (take (length calls) names)"
      unfolding all_names prefix by blast+
    moreover from c have "c \<in> set (take (length calls) names)"
      unfolding prefix .
    ultimately show "get_strategy_apy e c \<le> get_strategy_apy e name"
      using asc by (meson sorted_prefix_le)
  qed
  have each: "\<forall>i < length calls.
              0 < shortfall - withdrawn (take i calls)
            \<and> fst (snd (calls ! i)) = min (shortfall - withdrawn (take i calls)) (shortfall * 0.5)
            \<and> snd (snd (calls ! i))
                = success (fst (withdraw_from_strategy e (fst (calls ! i))
                                  (fst (snd (calls ! i)))))"
    unfolding calls_def using withdraw_loop_requests by blast
  have stop: "length calls < length (strategies_by_apy e) \<longrightarrow> shortfall - withdrawn calls \<le> 0"
    unfolding calls_def using withdraw_loop_stops by blast
  show "\<exists>calls. ensure_adequate_reserves e (Inr current_balance) required_amount = Inr calls
        \<and> sorted (map snd (strategies_by_apy e))
        \<and> map fst calls = take (length calls) (map fst (strategies_by_apy e))
        \<and> distinct (map fst calls)
        \<and> sorted (map (get_strategy_apy e) (map fst calls))
        \<and> (\<forall>name \<in> {''init_looping'', ''circuit_vault'', ''mnt_staking''} - set (map fst calls).
             \<forall>c \<in> set (map fst calls). get_strategy_apy e c \<le> get_strategy_apy e name)
        \<and> (\<forall>i < length calls.
              0 < (required_amount - current_balance) - withdrawn (take i calls)
            \<and> fst (snd (calls ! i))
                = min ((required_amount - current_balance) - withdrawn (take i calls))
                      ((required_amount - current_balance) * 0.5)
            \<and> snd (snd (calls ! i))
                = success (fst (withdraw_from_strategy e (fst (calls ! i))
                                  (fst (snd (calls ! i))))))
        \<and> (length calls < length (strategies_by_apy e) \<longrightarrow>
              (required_amount - current_balance) - withdrawn calls \<le> 0)"
    using run prefix once asc_calls lowest each stop strategies_by_apy_sorted [of e]
    unfolding shortfall_def names_def
    by (intro exI [of _ calls] conjI)
next
  show "strategies_by_apy offline_env =
       [(''mnt_staking'', 4.5), (''circuit_vault'', 6.8), (''init_looping'', 8.5)]"
    by (rule offline_order)
next
  show "ensure_adequate_reserves offline_env (Inr 0) 5000 =
       Inr [(''mnt_staking'', 2500, True), (''circuit_vault'', 2500, True)]"
    by (rule offline_top_up)
qed

text \<open>
  Claim C6. Whatever the outcomes of the withdrawals, the amounts withdrawn with success sum
  to no more than the shortfall; when there is no shortfall nothing is requested. The bound
  holds for the loop over any list of strategies.
\<close>

theorem total_withdrawn_within_shortfall:
  "(\<exists>calls. ensure_adequate_reserves e (Inr current_balance) required_amount = Inr calls
      \<and> (current_balance < required_amount \<longrightarrow>
            withdrawn calls \<le> required_amount - current_balance)
      \<and> (\<not> current_balance < required_amount \<longrightarrow> calls = []))
   \<and> (0 \<le> r \<longrightarrow> withdrawn (snd (withdraw_loop e s sts r)) \<le> r)"
proof (intro conjI)
  show "\<exists>calls. ensure_adequate_reserves e (Inr current_balance) required_amount = Inr calls
      \<and> (current_balance < required_amount \<longrightarrow>
            withdrawn calls \<le> required_amount - current_balance)
      \<and> (\<not> current_balance < required_amount \<longrightarrow> calls = [])"
  proof (cases "current_balance < required_amount")
    case True
    then have "0 \<le> required_amount - current_balance" by simp
    then have "withdrawn (snd (withdraw_loop e (required_amount - current_balance)
                 (strategies_by_apy e) (required_amount - current_balance)))
               \<le> required_amount - current_balance"
      by (rule withdraw_loop_bound)
    with True show ?thesis
      by (simp add: ensure_adequate_reserves_def Let_def)
  next
    case False
    then show ?thesis
      by (simp add: ensure_adequate_reserves_def)
  qed
  show "0 \<le> r \<longrightarrow> withdrawn (snd (withdraw_loop e s sts r)) \<le> r"
    by (simp add: withdraw_loop_bound)
qed

text \<open>
  Scenario 4 of C5, read off the general statement: two requests of 2500, in ascending order
  of APY, and none to the strategy of highest APY.
\<close>

theorem reserve_top_up_requests_witness:
  "\<exists>calls. ensure_adequate_reserves offline_env (Inr 0) 5000 = Inr calls
     \<and> length calls = 2
     \<and> map fst calls = [''mnt_staking'', ''circuit_vault'']
     \<and> fst (snd (calls ! 0)) = 2500
     \<and> fst (snd (calls ! 1)) = 2500
     \<and> 5000 - withdrawn calls \<le> 0
     \<and> get_strategy_apy offline_env ''circuit_vault''
         \<le> get_strategy_apy offline_env ''init_looping''
     \<and> map snd (strategies_by_apy offline_env)
         = map (get_strategy_apy offline_env) [''mnt_staking'', ''circuit_vault'', ''init_looping'']"
proof -
  have short: "(0::real) < 5000" by simp
  note general = reserve_top_up_requests [of offline_env 0 5000]
  have pairs: "map snd (strategies_by_apy offline_env)
      = map (get_strategy_apy offline_env) (map fst (strategies_by_apy offline_env))"
    using general by (elim conjE)
  from general short
  obtain calls where
    run: "ensure_adequate_reserves offline_env (Inr 0) 5000 = Inr calls"
    and names: "map fst calls = take (length calls) (map fst (strategies_by_apy offline_env))"
    and lowest: "\<forall>name \<in> {''init_looping'', ''circuit_vault'', ''mnt_staking''} - set (map fst calls).
             \<forall>c \<in> set (map fst calls).
               get_strategy_apy offline_env c \<le> get_strategy_apy offline_env name"
    and each: "\<forall>i < length calls.
              0 < (5000 - 0) - withdrawn (take i calls)
            \<and> fst (snd (calls ! i))
                = min ((5000 - 0) - withdrawn (take i calls)) ((5000 - 0) * 0.5)
            \<and> snd (snd (calls ! i))
                = success (fst (withdraw_from_strategy offline_env (fst (calls ! i))
                                  (fst (snd (calls ! i)))))"
    and stop: "length calls < length (strategies_by_apy offline_env) \<longrightarrow>
              (5000 - 0) - withdrawn calls \<le> 0"
    by blast
  have calls: "calls = [(''mnt_staking'', 2500, True), (''circuit_vault'', 2500, True)]"
    using run by (simp add: offline_top_up)
  have len: "length calls = 2"
    by (simp add: calls)
  have n: "map fst calls = [''mnt_staking'', ''circuit_vault'']"
    using names by (simp add: len offline_order)
  have a0: "fst (snd (calls ! 0)) = 2500"
    using each by (simp add: calls)
  have a1: "fst (snd (calls ! 1)) = 2500"
    using each by (simp add: calls)
  have rest: "5000 - withdrawn calls \<le> 0"
    using stop by (simp add: len offline_order)
  have untouched: "''init_looping''
      \<in> {''init_looping'', ''circuit_vault'', ''mnt_staking''} - set (map fst calls)"
    unfolding n by simp
  have called: "''circuit_vault'' \<in> set (map fst calls)"
    unfolding n by simp
  have apy: "get_strategy_apy offline_env ''circuit_vault''
         \<le> get_strategy_apy offline_env ''init_looping''"
    using lowest untouched called by blast
  have order: "map snd (strategies_by_apy offline_env)
      = map (get_strategy_apy offline_env) [''mnt_staking'', ''circuit_vault'', ''init_looping'']"
    using pairs by (simp add: offline_order)
  show ?thesis
    by (intro exI [of _ calls] conjI)
      (fact run, fact len, fact n, fact a0, fact a1, fact rest, fact apy, fact order)
qed

text \<open>
  C6 on a run where the first withdrawal fails and the other two succeed: 5000 of 5000.
\<close>

theorem total_withdrawn_within_shortfall_witness:
  "ensure_adequate_reserves staking_locked_env (Inr 0) 5000 =
     Inr [(''mnt_staking'', 2500, False), (''circuit_vault'', 2500, True),
          (''init_looping'', 2500, True)]
   \<and> withdrawn [(''mnt_staking'', 2500, False), (''circuit_vault'', 2500, True),
                (''init_looping'', 2500, True)] \<le> 5000
   \<and> withdrawn (snd (withdraw_loop staking_locked_env 5000
                      (strategies_by_apy staking_locked_env) 5000)) \<le> 5000"
proof -
  have short: "(0::real) < 5000" by simp
  have nonneg: "(0::real) \<le> 5000" by simp
  from total_withdrawn_within_shortfall
    [of staking_locked_env 0 5000 5000 5000 "strategies_by_apy staking_locked_env"]
  obtain calls where
    run: "ensure_adequate_reserves staking_locked_env (Inr 0) 5000 = Inr calls"
    and bound: "(0::real) < 5000 \<longrightarrow> withdrawn calls \<le> 5000 - 0"
    and loop: "(0::real) \<le> 5000 \<longrightarrow>
       withdrawn (snd (withdraw_loop staking_locked_env 5000
                         (strategies_by_apy staking_locked_env) 5000)) \<le> 5000"
    by blast
  have calls: "calls = [(''mnt_staking'', 2500, False), (''circuit_vault'', 2500, True),
          (''init_looping'', 2500, True)]"
    using run by (simp add: staking_locked_top_up)
  have b: "withdrawn calls \<le> 5000"
    using bound short by simp
  have l: "withdrawn (snd (withdraw_loop staking_locked_env 5000
                         (strategies_by_apy staking_locked_env) 5000)) \<le> 5000"
    using loop nonneg by (rule mp)
  show ?thesis
    using b l unfolding calls
    by (intro conjI) (rule staking_locked_top_up)
qed

section \<open>The rebalance tool and the sum of the target allocations\<close>

lemma deposit_loop_calls:
  "snd (deposit_loop e b ta) = deposits_of e b ta"
proof (induction ta)
  case Nil
  show ?case by (simp add: deposits_of_def)
next
  case (Cons entry ta)
  obtain name pct where entry: "entry = (name, pct)" by (cases entry)
  show ?case
    using Cons.IH unfolding entry
    by (simp add: deposits_of_def Let_def)
qed

lemma deposits_of_member:
  "(name, pct) \<in> set ta \<Longrightarrow> strategies name = Some s \<Longrightarrow> b * pct / 100 > 0 \<Longrightarrow>
   DepositCall s (b * pct / 100) \<in> set (deposits_of e b ta)"
  by (force simp add: deposits_of_def deploy_to_strategy_def)

lemma near_full_sum: "sum_list (map snd near_full_allocations) = 100.05"
  by (simp add: near_full_allocations_def)

lemma near_full_deposits:
  "deposits_of offline_env 1000 near_full_allocations =
     [DepositCall INITLoopingStrategy 600, DepositCall CircuitProtocolStrategy 400.5]"
  by (simp add: deposits_of_def near_full_allocations_def deploy_to_strategy_def strategies_def)

text \<open>
  Claim C8, as stated, fails. The claim has every allocation whose percentages do not sum to
  100 rejected before any deposit. The guard of \<open>execute_rebalance\<close> is
  \<open>abs(total_allocation - 100) > 0.1\<close>: allocations of 60 and 40.05, which sum to 100.05, are
  accepted, and both deposits are made.
\<close>

theorem allocation_off_by_tolerance_counterexample:
  "sum_list (map snd near_full_allocations) \<noteq> 100
   \<and> fst (execute_rebalance offline_env (Inr 1000) near_full_allocations) =
       RebalanceExecuted 1000 near_full_allocations
         [(''init_looping'', 600, 60, deposit offline_env INITLoopingStrategy 600),
          (''circuit_vault'', 400.5, 40.05, deposit offline_env CircuitProtocolStrategy 400.5)]
   \<and> snd (execute_rebalance offline_env (Inr 1000) near_full_allocations) =
       [DepositCall INITLoopingStrategy 600, DepositCall CircuitProtocolStrategy 400.5]
   \<and> success (deposit offline_env INITLoopingStrategy 600)
   \<and> success (deposit offline_env CircuitProtocolStrategy 400.5)"
proof (intro conjI)
  show "sum_list (map snd near_full_allocations) \<noteq> 100"
    by (simp add: near_full_sum)
  have loop: "deposit_loop offline_env 1000 near_full_allocations =
      ([(''init_looping'', 600, 60, deposit offline_env INITLoopingStrategy 600),
        (''circuit_vault'', 400.5, 40.05, deposit offline_env CircuitProtocolStrategy 400.5)],
       [DepositCall INITLoopingStrategy 600, DepositCall CircuitProtocolStrategy 400.5])"
    by (simp add: near_full_allocations_def Let_def deploy_to_strategy_def strategies_def)
  have accepted: "\<not> \<bar>sum_list (map snd near_full_allocations) - 100\<bar> > 0.1"
    by (simp add: near_full_sum)
  show "fst (execute_rebalance offline_env (Inr 1000) near_full_allocations) =
       RebalanceExecuted 1000 near_full_allocations
         [(''init_looping'', 600, 60, deposit offline_env INITLoopingStrategy 600),
          (''circuit_vault'', 400.5, 40.05, deposit offline_env CircuitProtocolStrategy 400.5)]"
    using accepted by (simp add: execute_rebalance_def Let_def loop)
  show "snd (execute_rebalance offline_env (Inr 1000) near_full_allocations) =
       [DepositCall INITLoopingStrategy 600, DepositCall CircuitProtocolStrategy 400.5]"
    using accepted by (simp add: execute_rebalance_def Let_def loop)
  show "success (deposit offline_env INITLoopingStrategy 600)"
    by (simp add: success_def offline_env_def)
  show "success (deposit offline_env CircuitProtocolStrategy 400.5)"
    by (simp add: success_def offline_env_def)
qed

text \<open>
  Claim C8, amended. When the percentages sum to more than 0.1 away from 100,
  \<open>execute_rebalance\<close> returns the error text and makes no call on a strategy. When the sum is
  within 0.1 of 100, it goes through the allocations in order and makes a deposit for every
  entry whose strategy is registered and whose target amount is positive. When reading the
  balance raises, it returns an error text and makes no call either.
\<close>

theorem allocation_sum_checked_within_tolerance:
  "(\<bar>sum_list (map snd ta) - 100\<bar> > 0.1 \<longrightarrow>
      execute_rebalance e (Inr b) ta =
        (ErrorText ''Error: Target allocations must sum to 100%'', []))
   \<and> (\<not> \<bar>sum_list (map snd ta) - 100\<bar> > 0.1 \<longrightarrow>
        (\<exists>results. execute_rebalance e (Inr b) ta =
                     (RebalanceExecuted b ta results, deposits_of e b ta))
        \<and> (\<forall>(name, pct) \<in> set ta. \<forall>s.
              strategies name = Some s \<and> b * pct / 100 > 0 \<longrightarrow>
              DepositCall s (b * pct / 100) \<in> set (deposits_of e b ta)))
   \<and> execute_rebalance e (Inl ex) ta =
        (ErrorText (''Error executing rebalance: '' @ str_exc ex), [])"
proof (intro conjI impI)
  assume "\<bar>sum_list (map snd ta) - 100\<bar> > 0.1"
  then show "execute_rebalance e (Inr b) ta =
        (ErrorText ''Error: Target allocations must sum to 100%'', [])"
    by (simp add: execute_rebalance_def Let_def)
next
  assume "\<not> \<bar>sum_list (map snd ta) - 100\<bar> > 0.1"
  then show "\<exists>results. execute_rebalance e (Inr b) ta =
                     (RebalanceExecuted b ta results, deposits_of e b ta)"
    by (simp add: execute_rebalance_def Let_def deposit_loop_calls)
next
  show "\<forall>(name, pct) \<in> set ta. \<forall>s.
              strategies name = Some s \<and> b * pct / 100 > 0 \<longrightarrow>
              DepositCall s (b * pct / 100) \<in> set (deposits_of e b ta)"
    using deposits_of_member [of _ _ ta _ b e] by auto
next
  show "execute_rebalance e (Inl ex) ta =
        (ErrorText (''Error executing rebalance: '' @ str_exc ex), [])"
    by (simp add: execute_rebalance_def)
qed

text \<open>The amended C8 on allocations that sum to 90 and on allocations that sum to 100.05.\<close>

theorem allocation_sum_checked_within_tolerance_witness:
  "execute_rebalance offline_env (Inr 1000) short_allocations =
      (ErrorText ''Error: Target allocations must sum to 100%'', [])
   \<and> snd (execute_rebalance offline_env (Inr 1000) near_full_allocations) =
       [DepositCall INITLoopingStrategy 600, DepositCall CircuitProtocolStrategy 400.5]
   \<and> DepositCall INITLoopingStrategy (1000 * 60 / 100)
       \<in> set (deposits_of offline_env 1000 near_full_allocations)"
proof -
  have rejected: "\<bar>sum_list (map snd short_allocations) - 100\<bar> > 0.1"
    by (simp add: short_allocations_def)
  have accepted: "\<not> \<bar>sum_list (map snd near_full_allocations) - 100\<bar> > 0.1"
    by (simp add: near_full_sum)
  have first: "execute_rebalance offline_env (Inr 1000) short_allocations =
      (ErrorText ''Error: Target allocations must sum to 100%'', [])"
    using conjunct1
        [OF allocation_sum_checked_within_tolerance [of short_allocations offline_env 1000]]
      rejected
    by (rule mp)
  from allocation_sum_checked_within_tolerance [of near_full_allocations offline_env 1000]
    accepted
  obtain results where
    run: "execute_rebalance offline_env (Inr 1000) near_full_allocations =
            (RebalanceExecuted 1000 near_full_allocations results,
             deposits_of offline_env 1000 near_full_allocations)"
    and members: "\<forall>(name, pct) \<in> set near_full_allocations. \<forall>s.
              strategies name = Some s \<and> 1000 * pct / 100 > 0 \<longrightarrow>
              DepositCall s (1000 * pct / 100)
                \<in> set (deposits_of offline_env 1000 near_full_allocations)"
    by blast
  have second: "snd (execute_rebalance offline_env (Inr 1000) near_full_allocations) =
       [DepositCall INITLoopingStrategy 600, DepositCall CircuitProtocolStrategy 400.5]"
    by (simp add: run near_full_deposits)
  have third: "DepositCall INITLoopingStrategy (1000 * 60 / 100)
       \<in> set (deposits_of offline_env 1000 near_full_allocations)"
  proof -
    have "(''init_looping'', 60) \<in> set near_full_allocations"
      by (simp add: near_full_allocations_def)
    moreover have "strategies ''init_looping'' = Some INITLoopingStrategy"
      by (simp add: strategies_def)
    moreover have "(1000::real) * 60 / 100 > 0" by simp
    ultimately show ?thesis using members by blast
  qed
  show ?thesis
    by (intro conjI) (fact first, fact second, fact third)
qed

end
